theory Spec2Isabelle
  imports Main "HOL-Library.Char_ord" "HOL-Library.List_Lexorder"
begin

section \<open>JavaScript values used by both sides\<close>

text \<open>
  Wall-clock readings and message timestamps are JavaScript numbers holding milliseconds
  since the epoch; they are modelled as \<open>int\<close>. A property that may be \<open>undefined\<close>
  or \<open>null\<close> is an \<open>option\<close>. The falsy values of the two types that the guards test are
  written out: a missing or empty string, a missing or zero number.
\<close>

datatype js_error = ReferenceError string | TypeError string | Error string

definition truthy_str :: "string option \<Rightarrow> bool" where
  "truthy_str s = (case s of None \<Rightarrow> False | Some v \<Rightarrow> v \<noteq> [])"

definition truthy_num :: "int option \<Rightarrow> bool" where
  "truthy_num n = (case n of None \<Rightarrow> False | Some v \<Rightarrow> v \<noteq> 0)"

text \<open>A string inside a template literal: \<open>undefined\<close> prints as the word itself.\<close>

definition template :: "string option \<Rightarrow> string" where
  "template s = (case s of None \<Rightarrow> ''undefined'' | Some v \<Rightarrow> v)"

text \<open>
  The key-exchange envelope as it travels: the object literal built by
  \<open>createKeyExchangeInit\<close> and \<open>createKeyExchangeResponse\<close>, every property optional
  for the receiver, which reads whatever the peer sent.
\<close>

record envelope =
  msg_type :: "string option"
  msg_senderId :: "string option"
  msg_receiverId :: "string option"
  msg_conversationId :: "string option"
  msg_ecdhPublicKey :: "string option"
  msg_timestamp :: "int option"
  msg_nonce :: "string option"
  msg_confirmationHash :: "string option"
  msg_deviceInfo :: "string option"
  msg_appVersion :: "string option"
  msg_signature :: "string option"

section \<open>Replay protection (backend, replayProtection.js)\<close>

definition TIMESTAMP_TOLERANCE :: int where
  "TIMESTAMP_TOLERANCE = 5 * 60 * 1000"

definition MAX_TIMESTAMPS_PER_CONVERSATION :: nat where
  "MAX_TIMESTAMPS_PER_CONVERSATION = 1000"

definition SEQUENCE_WINDOW :: int where
  "SEQUENCE_WINDOW = 100"

text \<open>
  The security log file, one entry per call of a logging function: a replay attack with
  its conversation id, attack type and reason, or a key-exchange attempt.
\<close>

datatype log_entry =
    ReplayAttackLog string string string
  | KeyExchangeLog "string option" "string option" string bool

text \<open>
  The module's four maps and the log. \<open>messageHistory\<close> maps a sequence context to a
  map from sequence number to message id, and a message id may be \<open>null\<close>.
\<close>

record replay_state =
  seenNonces :: "string \<rightharpoonup> string set"
  seenTimestamps :: "string \<rightharpoonup> int list"
  sequenceNumbers :: "string \<rightharpoonup> int"
  messageHistory :: "string \<rightharpoonup> (int \<rightharpoonup> string option)"
  securityLog :: "log_entry list"

definition logReplayAttack :: "replay_state \<Rightarrow> string \<Rightarrow> string \<Rightarrow> string \<Rightarrow> replay_state" where
  "logReplayAttack st conversationId attackType reason =
     st\<lparr>securityLog := securityLog st @ [ReplayAttackLog conversationId attackType reason]\<rparr>"

definition logKeyExchangeAttempt ::
  "replay_state \<Rightarrow> string option \<Rightarrow> string option \<Rightarrow> string \<Rightarrow> bool \<Rightarrow> replay_state" where
  "logKeyExchangeAttempt st senderId receiverId conversationId success =
     st\<lparr>securityLog := securityLog st @ [KeyExchangeLog senderId receiverId conversationId success]\<rparr>"

text \<open>The nonces recorded for a conversation; none when the map has no entry for it.\<close>

definition recordedNonces :: "replay_state \<Rightarrow> string \<Rightarrow> string set" where
  "recordedNonces st conversationId =
     (case seenNonces st conversationId of None \<Rightarrow> {} | Some s \<Rightarrow> s)"

definition validateNonce :: "replay_state \<Rightarrow> string \<Rightarrow> string option \<Rightarrow> bool \<times> replay_state" where
  "validateNonce st conversationId nonce =
     (if conversationId = [] \<or> \<not> truthy_str nonce then (False, st)
      else
        let n = template nonce;
            st1 = (if seenNonces st conversationId = None
                   then st\<lparr>seenNonces := (seenNonces st)(conversationId \<mapsto> {})\<rparr>
                   else st);
            nonceSet = recordedNonces st1 conversationId
        in if n \<in> nonceSet
           then (False, logReplayAttack st1 conversationId ''nonce'' ''Duplicate nonce detected'')
           else (True, st1\<lparr>seenNonces := (seenNonces st1)(conversationId \<mapsto> insert n nonceSet)\<rparr>))"

definition validateTimestamp ::
  "replay_state \<Rightarrow> int \<Rightarrow> string \<Rightarrow> int option \<Rightarrow> bool \<times> replay_state" where
  "validateTimestamp st now conversationId timestamp =
     (case timestamp of
        None \<Rightarrow> (False, st)
      | Some messageTime \<Rightarrow>
          if conversationId = [] \<or> messageTime = 0 then (False, st)
          else if messageTime > now + TIMESTAMP_TOLERANCE
          then (False, logReplayAttack st conversationId ''timestamp'' ''Future timestamp detected'')
          else if messageTime < now - TIMESTAMP_TOLERANCE
          then (False, logReplayAttack st conversationId ''timestamp'' ''Timestamp too old'')
          else
            let timestampArray =
                  (case seenTimestamps st conversationId of None \<Rightarrow> [] | Some a \<Rightarrow> a)
                    @ [messageTime];
                kept = (if length timestampArray > MAX_TIMESTAMPS_PER_CONVERSATION
                        then tl timestampArray else timestampArray)
            in (True, st\<lparr>seenTimestamps := (seenTimestamps st)(conversationId \<mapsto> kept)\<rparr>))"

text \<open>
  \<open>validateSequenceNumber(sequenceContextId, sequenceNumber, messageId)\<close>. The function
  has no binding named \<open>conversationId\<close>: its parameter is \<open>sequenceContextId\<close> and the
  module declares no such name. The branch for a sequence number behind the window
  evaluates \<open>conversationId\<close> as the first argument of \<open>logReplayAttack\<close>, which throws a
  ReferenceError before anything is logged or returned. A context whose history map is
  missing makes \<open>history.has\<close> throw a TypeError.
\<close>

definition validateSequenceNumber ::
  "replay_state \<Rightarrow> string \<Rightarrow> int option \<Rightarrow> string option \<Rightarrow> (js_error + bool) \<times> replay_state" where
  "validateSequenceNumber st sequenceContextId sequenceNumber messageId =
     (case sequenceNumber of
        None \<Rightarrow> (Inr False, st)
      | Some sn \<Rightarrow>
          if sequenceContextId = [] then (Inr False, st)
          else
            let st1 = (if sequenceNumbers st sequenceContextId = None
                       then st\<lparr>sequenceNumbers := (sequenceNumbers st)(sequenceContextId \<mapsto> 0),
                               messageHistory := (messageHistory st)(sequenceContextId \<mapsto> Map.empty)\<rparr>
                       else st);
                lastSequence = sequenceNumbers st1 sequenceContextId
            in case messageHistory st1 sequenceContextId of
                 None \<Rightarrow> (Inl (TypeError ''Cannot read properties of undefined (reading has)''), st1)
               | Some history \<Rightarrow>
                   if history sn \<noteq> None
                   then (Inr False,
                         logReplayAttack st1 sequenceContextId ''sequence''
                           ''Duplicate sequence number detected'')
                   else if (case lastSequence of None \<Rightarrow> False
                            | Some l \<Rightarrow> sn < l - SEQUENCE_WINDOW)
                   then (Inl (ReferenceError ''conversationId is not defined''), st1)
                   else
                     let numbers = (if (case lastSequence of None \<Rightarrow> False | Some l \<Rightarrow> sn > l)
                                    then (sequenceNumbers st1)(sequenceContextId \<mapsto> sn)
                                    else sequenceNumbers st1);
                         stored = history(sn \<mapsto> messageId);
                         minSequence = sn - SEQUENCE_WINDOW;
                         cleaned = (\<lambda>seq. if seq < minSequence then None else stored seq)
                     in (Inr True,
                         st1\<lparr>sequenceNumbers := numbers,
                             messageHistory := (messageHistory st1)(sequenceContextId \<mapsto> cleaned)\<rparr>))"

text \<open>The result object \<open>{ valid, reason }\<close> of \<open>validateReplayProtection\<close>.\<close>

datatype validation = Validation (valid: bool) (reason: "string option")

definition validateReplayProtection ::
  "replay_state \<Rightarrow> int \<Rightarrow> string \<Rightarrow> string option \<Rightarrow> int option \<Rightarrow> int option \<Rightarrow> string option
     \<Rightarrow> string option \<Rightarrow> (js_error + validation) \<times> replay_state" where
  "validateReplayProtection st now conversationId nonce timestamp sequenceNumber messageId
       sequenceContextId =
     (let (nonceOk, st1) =
            (if truthy_str nonce then validateNonce st conversationId nonce else (True, st))
      in if \<not> nonceOk
         then (Inr (Validation False (Some ''Invalid or duplicate nonce'')), st1)
         else
           let (timestampOk, st2) =
                 (if truthy_num timestamp then validateTimestamp st1 now conversationId timestamp
                  else (True, st1))
           in if \<not> timestampOk
              then (Inr (Validation False
                      (Some ''Invalid timestamp (outside tolerance window or future timestamp)'')),
                    st2)
              else
                (case sequenceNumber of
                   None \<Rightarrow> (Inr (Validation True None), st2)
                 | Some sn \<Rightarrow>
                     let ctx = (if truthy_str sequenceContextId then template sequenceContextId
                                else conversationId)
                     in (case validateSequenceNumber st2 ctx sequenceNumber messageId of
                           (Inl e, st3) \<Rightarrow> (Inl e, st3)
                         | (Inr ok, st3) \<Rightarrow>
                             if \<not> ok
                             then (Inr (Validation False
                                     (Some ''Invalid sequence number (duplicate or outside window)'')),
                                   st3)
                             else (Inr (Validation True None), st3))))"

section \<open>The key-exchange endpoint (backend, keyExchange.controller.js)\<close>

text \<open>
  \<open>keyExchangeStore\<close> maps a conversation id to the pending messages of its handshake.
  \<open>initiateKeyExchange\<close> reads the clock up to three times: for the default of a missing
  timestamp (\<open>now1\<close>), inside \<open>validateTimestamp\<close> (\<open>now2\<close>) and for \<open>initTimestamp\<close>
  (\<open>now3\<close>). The request body is the envelope, \<open>userId\<close> is the authenticated user.
  Anything thrown inside the handler is answered with status 500.
\<close>

record kx_entry =
  init :: "envelope option"
  initTimestamp :: "int option"
  response :: "envelope option"
  responseTimestamp :: "int option"

record server_state =
  replay :: replay_state
  keyExchangeStore :: "string \<rightharpoonup> kx_entry"

datatype http_response = HttpResponse (status: nat) (body: string)

definition initiateKeyExchange ::
  "server_state \<Rightarrow> int \<Rightarrow> int \<Rightarrow> int \<Rightarrow> envelope \<Rightarrow> string \<Rightarrow> http_response \<times> server_state" where
  "initiateKeyExchange srv now1 now2 now3 message userId =
     (if msg_type message \<noteq> Some ''KEY_EXCHANGE_INIT''
      then (HttpResponse 400 ''Invalid message type'', srv)
      else if msg_senderId message \<noteq> Some userId
      then (HttpResponse 403 ''Sender ID mismatch'', srv)
      else
        let conversationId =
              (if truthy_str (msg_conversationId message) then template (msg_conversationId message)
               else template (msg_senderId message) @ ''_'' @ template (msg_receiverId message));
            timestamp = (if truthy_num (msg_timestamp message) then msg_timestamp message
                         else Some now1)
        in case validateReplayProtection (replay srv) now2 conversationId (msg_nonce message)
                  timestamp None None None of
             (Inl e, rs) \<Rightarrow> (HttpResponse 500 ''Internal server error'', srv\<lparr>replay := rs\<rparr>)
           | (Inr validation, rs) \<Rightarrow>
               if \<not> valid validation
               then (HttpResponse 400
                       (''Replay attack detected in key exchange: '' @ template (reason validation)),
                     srv\<lparr>replay := rs\<rparr>)
               else
                 let entry = (case keyExchangeStore srv conversationId of
                                None \<Rightarrow> \<lparr>init = None, initTimestamp = None, response = None,
                                          responseTimestamp = None\<rparr>
                              | Some e \<Rightarrow> e);
                     stored = entry\<lparr>init := Some message, initTimestamp := Some now3\<rparr>
                 in (HttpResponse 200 ''Key exchange initiation stored'',
                     \<lparr>replay = logKeyExchangeAttempt rs (msg_senderId message)
                                 (msg_receiverId message) conversationId True,
                      keyExchangeStore = (keyExchangeStore srv)(conversationId \<mapsto> stored)\<rparr>))"

text \<open>
  \<open>respondToKeyExchange\<close> is the same handler for a Response: it expects the type
  \<open>KEY_EXCHANGE_RESPONSE\<close>, defaults the conversation id to
  \<open><receiverId>_<senderId>\<close> and stores the message as \<open>response\<close>.
\<close>

definition respondToKeyExchange ::
  "server_state \<Rightarrow> int \<Rightarrow> int \<Rightarrow> int \<Rightarrow> envelope \<Rightarrow> string \<Rightarrow> http_response \<times> server_state" where
  "respondToKeyExchange srv now1 now2 now3 message userId =
     (if msg_type message \<noteq> Some ''KEY_EXCHANGE_RESPONSE''
      then (HttpResponse 400 ''Invalid message type'', srv)
      else if msg_senderId message \<noteq> Some userId
      then (HttpResponse 403 ''Sender ID mismatch'', srv)
      else
        let conversationId =
              (if truthy_str (msg_conversationId message) then template (msg_conversationId message)
               else template (msg_receiverId message) @ ''_'' @ template (msg_senderId message));
            timestamp = (if truthy_num (msg_timestamp message) then msg_timestamp message
                         else Some now1)
        in case validateReplayProtection (replay srv) now2 conversationId (msg_nonce message)
                  timestamp None None None of
             (Inl e, rs) \<Rightarrow> (HttpResponse 500 ''Internal server error'', srv\<lparr>replay := rs\<rparr>)
           | (Inr validation, rs) \<Rightarrow>
               if \<not> valid validation
               then (HttpResponse 400
                       (''Replay attack detected in key exchange response: ''
                          @ template (reason validation)),
                     srv\<lparr>replay := rs\<rparr>)
               else
                 let entry = (case keyExchangeStore srv conversationId of
                                None \<Rightarrow> \<lparr>init = None, initTimestamp = None, response = None,
                                          responseTimestamp = None\<rparr>
                              | Some e \<Rightarrow> e);
                     stored = entry\<lparr>response := Some message, responseTimestamp := Some now3\<rparr>
                 in (HttpResponse 200 ''Key exchange response stored'',
                     \<lparr>replay = logKeyExchangeAttempt rs (msg_senderId message)
                                 (msg_receiverId message) conversationId True,
                      keyExchangeStore = (keyExchangeStore srv)(conversationId \<mapsto> stored)\<rparr>))"

section \<open>Key exchange in the browser (frontend, keyExchange.js)\<close>

subsection \<open>The browser interfaces the module calls\<close>

text \<open>
  The module computes nothing cryptographic itself: it calls \<open>crypto.subtle\<close>, \<open>btoa\<close>,
  \<open>atob\<close> and \<open>JSON.stringify\<close>. These are parameters of the model, collected in one
  record; a call that can throw returns \<open>Inl\<close> with the message of the exception.
  An \<open>ArrayBuffer\<close> is the string of its bytes, so \<open>btoa\<close> here stands for
  \<open>btoa(String.fromCharCode(...new Uint8Array(buffer)))\<close> and \<open>atob\<close> for
  \<open>Uint8Array.from(atob(s), c => c.charCodeAt(0))\<close>. The type parameters are the
  \<open>CryptoKey\<close> objects: an ECDH private key, an ECDH public key, an AES-GCM key.
  The last two fields are the faults of the browser's storage: the error with which
  opening an IndexedDB database fails whatever its version, and the error with which a
  request or transaction on an open database fails; \<open>None\<close> when the storage works.
\<close>

record ('priv, 'pub, 'key) browser =
  digest :: "string \<Rightarrow> string"
  btoa :: "string \<Rightarrow> string"
  atob :: "string \<Rightarrow> string + string"
  stringify :: "envelope \<Rightarrow> string"
  subtle_sign :: "string \<Rightarrow> string \<Rightarrow> string + string"
  subtle_verify :: "string \<Rightarrow> string \<Rightarrow> string \<Rightarrow> string + bool"
  deriveBits :: "'priv \<Rightarrow> 'pub \<Rightarrow> string + string"
  exportKey_spki :: "'pub \<Rightarrow> string"
  importKey_spki :: "string \<Rightarrow> string + 'pub"
  importKey_raw :: "string \<Rightarrow> string + 'key"
  exportKey_raw :: "'key \<Rightarrow> string + string"
  userAgent :: string
  idb_open_error :: "string option"
  idb_request_error :: "string option"

text \<open>
  \<open>TextEncoder.encode\<close> on a string whose code units are below 256: UTF-8, one byte below
  128 and two bytes from 128 on. \<open>toString\<close> is the decimal form of an integer.
\<close>

definition encode :: "string \<Rightarrow> string" where
  "encode s = concat (map (\<lambda>c. if of_char c < (128::nat) then [c]
                                  else [char_of (192 + of_char c div (64::nat)),
                                        char_of (128 + of_char c mod (64::nat))]) s)"

fun digits :: "nat \<Rightarrow> string" where
  "digits n = (if n < 10 then [char_of (48 + n)]
               else digits (n div 10) @ [char_of (48 + n mod 10)])"

definition toString :: "int \<Rightarrow> string" where
  "toString i = (if i < 0 then CHR ''-'' # digits (nat (- i)) else digits (nat i))"

text \<open>
  \<open>[a, b].sort()\<close> with the default comparison: the two strings in ascending order of
  their code units, a proper prefix first.
\<close>

definition sort2 :: "string \<Rightarrow> string \<Rightarrow> string list" where
  "sort2 a b = (if b < a then [b, a] else [a, b])"

subsection \<open>Module state\<close>

definition SESSION_KEY_EXPIRY :: int where
  "SESSION_KEY_EXPIRY = 7 * 24 * 60 * 60 * 1000"

text \<open>
  A record of the \<open>sessionKeys\<close> object store, and the state the module works on: the
  set \<open>seenNonces\<close> (a nonce read from a message may be \<open>undefined\<close>) and the database
  \<open>ChatAppKeysDB\<close>, which is its version (0 while the database does not exist) and the
  object store \<open>sessionKeys\<close>, \<open>None\<close> while the database has no store of that name.
\<close>

record keyData =
  kd_key :: string
  kd_timestamp :: int
  kd_expiresAt :: int

record kx_state =
  kx_seenNonces :: "string option set"
  dbVersion :: nat
  sessionKeyStore :: "(string \<rightharpoonup> keyData) option"

definition storedEntry :: "kx_state \<Rightarrow> string \<Rightarrow> keyData option" where
  "storedEntry st conversationId =
     (case sessionKeyStore st of
        None \<Rightarrow> None
      | Some store \<Rightarrow> store (''sessionKey-'' @ conversationId))"

subsection \<open>Primitives\<close>

definition exportECDHPublicKey :: "('priv, 'pub, 'key) browser \<Rightarrow> 'pub \<Rightarrow> string" where
  "exportECDHPublicKey E publicKey = btoa E (exportKey_spki E publicKey)"

definition importECDHPublicKey ::
  "('priv, 'pub, 'key) browser \<Rightarrow> string option \<Rightarrow> string + 'pub" where
  "importECDHPublicKey E publicKeyBase64 =
     (case atob E (template publicKeyBase64) of
        Inl m \<Rightarrow> Inl (''Failed to import ECDH public key: '' @ m)
      | Inr keyBuffer \<Rightarrow>
          (case importKey_spki E keyBuffer of
             Inl m \<Rightarrow> Inl (''Failed to import ECDH public key: '' @ m)
           | Inr publicKey \<Rightarrow> Inr publicKey))"

definition deriveSharedSecret ::
  "('priv, 'pub, 'key) browser \<Rightarrow> 'priv \<Rightarrow> 'pub \<Rightarrow> string + string" where
  "deriveSharedSecret E myPrivateKey theirPublicKey =
     (case deriveBits E myPrivateKey theirPublicKey of
        Inl m \<Rightarrow> Inl (''Failed to derive shared secret: '' @ m)
      | Inr sharedSecret \<Rightarrow> Inr sharedSecret)"

definition signData :: "('priv, 'pub, 'key) browser \<Rightarrow> string \<Rightarrow> string \<Rightarrow> string + string" where
  "signData E privateKeyBase64 dat =
     (case subtle_sign E privateKeyBase64 dat of
        Inl m \<Rightarrow> Inl (''Failed to sign data: '' @ m)
      | Inr sg \<Rightarrow> Inr sg)"

definition verifySignature ::
  "('priv, 'pub, 'key) browser \<Rightarrow> string \<Rightarrow> string \<Rightarrow> string \<Rightarrow> bool" where
  "verifySignature E publicKeyBase64 sg dat =
     (case subtle_verify E publicKeyBase64 sg dat of Inl m \<Rightarrow> False | Inr isValid \<Rightarrow> isValid)"

text \<open>
  \<open>deriveSessionKeySHA256\<close>: SHA-256 over the shared secret followed by the two ids and
  the decimal timestamp, imported as an AES-GCM key. A timestamp that is \<open>undefined\<close>
  makes \<open>timestamp.toString()\<close> throw.
\<close>

definition deriveSessionKeySHA256 ::
  "('priv, 'pub, 'key) browser \<Rightarrow> string \<Rightarrow> string \<Rightarrow> string \<Rightarrow> int option \<Rightarrow> string + 'key" where
  "deriveSessionKeySHA256 E sharedSecret senderId receiverId timestamp =
     (case timestamp of
        None \<Rightarrow> Inl (''Failed to derive session key: ''
                      @ ''Cannot read properties of undefined (reading toString)'')
      | Some t \<Rightarrow>
          let combined = sharedSecret @ encode senderId @ encode receiverId @ encode (toString t);
              hash = digest E combined
          in (case importKey_raw E hash of
                Inl m \<Rightarrow> Inl (''Failed to derive session key: '' @ m)
              | Inr sessionKey \<Rightarrow> Inr sessionKey))"

definition generateNonce :: "('priv, 'pub, 'key) browser \<Rightarrow> string \<Rightarrow> string" where
  "generateNonce E randomBytes = btoa E randomBytes"

subsection \<open>Session store\<close>

text \<open>
  \<open>timestamp || Date.now()\<close>, with \<open>now\<close> the reading of the clock during the call: the two
  reads in \<open>storeSessionKey\<close> give the same value.
\<close>

definition orNow :: "int option \<Rightarrow> int \<Rightarrow> int" where
  "orNow timestamp now = (case timestamp of None \<Rightarrow> now | Some t \<Rightarrow> if t = 0 then now else t)"

text \<open>
  \<open>indexedDB.open(dbName, version)\<close> on the database of the state. A requested version
  below the existing one fails with a VersionError (the request's \<open>onerror\<close>). A
  requested version above the existing one, which includes the first open of a database
  that does not exist, runs the caller's \<open>onupgradeneeded\<close> handler and leaves the
  database at the requested version; \<open>createsStore\<close> says whether the caller has a
  handler, and every handler of this program creates \<open>sessionKeys\<close> when it is missing.
  An open at the existing version changes nothing. No connection of an earlier call is
  open when a call opens the database, as after a page load: the module never closes the
  connection it has stored or read through, and a connection left open would keep a later
  upgrade waiting.
\<close>

definition indexedDB_open ::
  "('priv, 'pub, 'key) browser \<Rightarrow> nat \<Rightarrow> bool \<Rightarrow> kx_state \<Rightarrow> string + kx_state" where
  "indexedDB_open E version createsStore st =
     (case idb_open_error E of
        Some m \<Rightarrow> Inl m
      | None \<Rightarrow>
          if version < dbVersion st then Inl ''VersionError''
          else if dbVersion st < version
          then Inr (st\<lparr>dbVersion := version,
                      sessionKeyStore := (if createsStore \<and> sessionKeyStore st = None
                                          then Some Map.empty else sessionKeyStore st)\<rparr>)
          else Inr st)"

text \<open>\<open>initDB\<close> of keyStorage.js: an open at \<open>DB_VERSION\<close> with an upgrade handler.\<close>

definition DB_VERSION :: nat where
  "DB_VERSION = 2"

definition initDB :: "('priv, 'pub, 'key) browser \<Rightarrow> kx_state \<Rightarrow> string + kx_state" where
  "initDB E st = indexedDB_open E DB_VERSION True st"

text \<open>
  \<open>storeSessionKey\<close> opens the database at version 2 with an upgrade handler. When the
  opened database has no \<open>sessionKeys\<close> store, it closes it and opens it again at
  \<open>version + 1\<close>, where the upgrade handler creates the store. It then puts the exported
  key with its creation time and expiry under \<open>sessionKey-<conversationId>\<close> and resolves
  to \<open>true\<close>. The promise is rejected (\<open>Inl\<close>) with the error of a failing open, of a
  failing \<open>exportKey\<close>, of a failing put or transaction, or of a transaction on a store
  that does not exist; what an open has changed by then stays changed.
\<close>

definition storeSessionKey ::
  "('priv, 'pub, 'key) browser \<Rightarrow> int \<Rightarrow> kx_state \<Rightarrow> string \<Rightarrow> 'key \<Rightarrow> int option
     \<Rightarrow> (string + bool) \<times> kx_state" where
  "storeSessionKey E now st conversationId sessionKey timestamp =
     (let version = 2
      in case indexedDB_open E version True st of
           Inl m \<Rightarrow> (Inl m, st)
         | Inr db \<Rightarrow>
             (case (if sessionKeyStore db = None then indexedDB_open E (version + 1) True db
                    else Inr db) of
                Inl m \<Rightarrow> (Inl m, db)
              | Inr upgradeDb \<Rightarrow>
                  (case exportKey_raw E sessionKey of
                     Inl m \<Rightarrow> (Inl m, upgradeDb)
                   | Inr exported \<Rightarrow>
                       let keyData = \<lparr>kd_key = exported, kd_timestamp = orNow timestamp now,
                                      kd_expiresAt = orNow timestamp now + SESSION_KEY_EXPIRY\<rparr>
                       in case idb_request_error E of
                            Some m \<Rightarrow> (Inl m, upgradeDb)
                          | None \<Rightarrow>
                              (case sessionKeyStore upgradeDb of
                                 None \<Rightarrow> (Inl ''NotFoundError'', upgradeDb)
                               | Some store \<Rightarrow>
                                   (Inr True,
                                    upgradeDb\<lparr>sessionKeyStore :=
                                      Some (store(''sessionKey-'' @ conversationId
                                              \<mapsto> keyData))\<rparr>)))))"

text \<open>
  \<open>retrieveSessionKey\<close> opens the database at version 2 without an upgrade handler, so
  a first open creates the database at version 2 with no store. It resolves to \<open>null\<close>
  when the store or the entry is missing, when the entry has expired (which it then
  deletes) and when the stored bytes do not import; it resolves to the imported key
  otherwise. The promise is rejected (\<open>Inl\<close>) with the error of a failing open or of a
  failing get: the function returns the promise without awaiting it, so its own
  \<open>catch\<close> does not see the rejection.
\<close>

definition retrieveSessionKey ::
  "('priv, 'pub, 'key) browser \<Rightarrow> int \<Rightarrow> kx_state \<Rightarrow> string
     \<Rightarrow> (string + 'key option) \<times> kx_state" where
  "retrieveSessionKey E now st conversationId =
     (case indexedDB_open E 2 False st of
        Inl m \<Rightarrow> (Inl m, st)
      | Inr db \<Rightarrow>
          (case sessionKeyStore db of
             None \<Rightarrow> (Inr None, db)
           | Some store \<Rightarrow>
               (case idb_request_error E of
                  Some m \<Rightarrow> (Inl m, db)
                | None \<Rightarrow>
                    (case store (''sessionKey-'' @ conversationId) of
                       None \<Rightarrow> (Inr None, db)
                     | Some result \<Rightarrow>
                         if kd_expiresAt result \<noteq> 0 \<and> now > kd_expiresAt result
                         then (Inr None,
                               db\<lparr>sessionKeyStore :=
                                 Some (store(''sessionKey-'' @ conversationId := None))\<rparr>)
                         else (case importKey_raw E (kd_key result) of
                                 Inl m \<Rightarrow> (Inr None, db)
                               | Inr sessionKey \<Rightarrow> (Inr (Some sessionKey), db))))))"

subsection \<open>Handshake messages\<close>

text \<open>
  One clock reading (\<open>now\<close>) and one draw of random bytes per call stand for
  \<open>Date.now()\<close> and \<open>crypto.getRandomValues\<close>. Each function wraps whatever is thrown
  inside it into its own error message, as its \<open>catch\<close> block does; that includes the
  rejection of the awaited \<open>storeSessionKey\<close>.
\<close>

definition createKeyExchangeInit ::
  "('priv, 'pub, 'key) browser \<Rightarrow> int \<Rightarrow> string \<Rightarrow> 'pub \<Rightarrow> string \<Rightarrow> string \<Rightarrow> string \<Rightarrow> string
     \<Rightarrow> string + envelope" where
  "createKeyExchangeInit E now randomBytes ecdhPublicKey receiverId myPrivateKeyBase64 senderId
       conversationId =
     (let ecdhPublicKeyBase64 = exportECDHPublicKey E ecdhPublicKey;
          nonce = generateNonce E randomBytes;
          timestamp = now;
          deviceInfo = (if userAgent E = [] then ''Unknown'' else userAgent E);
          appVersion = ''1.0.0'';
          messageData =
            \<lparr>msg_type = Some ''KEY_EXCHANGE_INIT'', msg_senderId = Some senderId,
             msg_receiverId = Some receiverId, msg_conversationId = Some conversationId,
             msg_ecdhPublicKey = Some ecdhPublicKeyBase64, msg_timestamp = Some timestamp,
             msg_nonce = Some nonce, msg_confirmationHash = None,
             msg_deviceInfo = Some deviceInfo, msg_appVersion = Some appVersion,
             msg_signature = None\<rparr>;
          messageString = stringify E messageData
      in case signData E myPrivateKeyBase64 messageString of
           Inl m \<Rightarrow> Inl (''Failed to create key exchange initiation: '' @ m)
         | Inr sg \<Rightarrow> Inr (messageData\<lparr>msg_signature := Some (btoa E sg)\<rparr>))"

text \<open>
  The result of \<open>validateKeyExchangeInit\<close>: \<open>{ valid: false, error }\<close>, or
  \<open>{ valid: true, ecdhPublicKey, senderId, conversationId, timestamp }\<close>.
\<close>

datatype 'pub init_validation =
    InvalidInit string
  | ValidInit 'pub "string option" "string option" "int option"

text \<open>
  A timestamp that is \<open>undefined\<close> makes \<open>Math.abs(now - messageTime)\<close> NaN, and
  \<open>NaN > TIMESTAMP_TOLERANCE\<close> is false: the check lets it pass.
\<close>

definition outOfTolerance :: "int \<Rightarrow> int option \<Rightarrow> bool" where
  "outOfTolerance now messageTime =
     (case messageTime of None \<Rightarrow> False | Some t \<Rightarrow> \<bar>now - t\<bar> > TIMESTAMP_TOLERANCE)"

definition validateKeyExchangeInit ::
  "('priv, 'pub, 'key) browser \<Rightarrow> int \<Rightarrow> kx_state \<Rightarrow> envelope \<Rightarrow> string
     \<Rightarrow> 'pub init_validation \<times> kx_state" where
  "validateKeyExchangeInit E now st message senderPublicKeyBase64 =
     (if \<not> truthy_str (msg_signature message) then (InvalidInit ''Missing signature'', st)
      else
        let messageString = stringify E (message\<lparr>msg_signature := None\<rparr>)
        in case atob E (template (msg_signature message)) of
             Inl m \<Rightarrow> (InvalidInit (''Validation error: '' @ m), st)
           | Inr sg \<Rightarrow>
               if \<not> verifySignature E senderPublicKeyBase64 sg messageString
               then (InvalidInit ''Invalid signature'', st)
               else if outOfTolerance now (msg_timestamp message)
               then (InvalidInit ''Message timestamp out of tolerance'', st)
               else if msg_nonce message \<in> kx_seenNonces st
               then (InvalidInit ''Nonce already seen (replay attack)'', st)
               else
                 let st1 = st\<lparr>kx_seenNonces := insert (msg_nonce message) (kx_seenNonces st)\<rparr>
                 in case importECDHPublicKey E (msg_ecdhPublicKey message) of
                      Inl m \<Rightarrow> (InvalidInit (''Validation error: '' @ m), st1)
                    | Inr ecdhPublicKey \<Rightarrow>
                        (ValidInit ecdhPublicKey (msg_senderId message)
                           (msg_conversationId message) (msg_timestamp message), st1))"

text \<open>The object \<open>{ response, sessionKey, timestamp }\<close> returned by the responder.\<close>

record 'key kx_response =
  res_response :: envelope
  res_sessionKey :: 'key
  res_timestamp :: int

text \<open>
  \<open>createKeyExchangeResponse\<close>, run by the responder: \<open>senderId\<close> is the initiator,
  \<open>receiverId\<close> the responder itself.
\<close>

definition createKeyExchangeResponse ::
  "('priv, 'pub, 'key) browser \<Rightarrow> int \<Rightarrow> string \<Rightarrow> kx_state \<Rightarrow> 'pub \<Rightarrow> 'pub \<Rightarrow> 'priv \<Rightarrow> string
     \<Rightarrow> string \<Rightarrow> string \<Rightarrow> string option \<Rightarrow> (string + 'key kx_response) \<times> kx_state" where
  "createKeyExchangeResponse E now randomBytes st myECDHPublicKey theirECDHPublicKey
       myECDHPrivateKey senderId myPrivateKeyBase64 receiverId conversationId =
     (case deriveSharedSecret E myECDHPrivateKey theirECDHPublicKey of
        Inl m \<Rightarrow> (Inl (''Failed to create key exchange response: '' @ m), st)
      | Inr sharedSecret \<Rightarrow>
          let timestamp = now;
              ids = sort2 senderId receiverId
          in case deriveSessionKeySHA256 E sharedSecret (ids ! 0) (ids ! 1) (Some timestamp) of
               Inl m \<Rightarrow> (Inl (''Failed to create key exchange response: '' @ m), st)
             | Inr sessionKey \<Rightarrow>
                 let myECDHPublicKeyBase64 = exportECDHPublicKey E myECDHPublicKey;
                     nonce = generateNonce E randomBytes;
                     deviceInfo = (if userAgent E = [] then ''Unknown'' else userAgent E);
                     appVersion = ''1.0.0'';
                     confirmationData = ''KEY_CONFIRMED_'' @ receiverId @ ''_'' @ senderId @ ''_''
                                          @ toString timestamp;
                     confirmationHash = digest E (encode confirmationData);
                     confirmationHashBase64 = btoa E confirmationHash;
                     responseData =
                       \<lparr>msg_type = Some ''KEY_EXCHANGE_RESPONSE'', msg_senderId = Some receiverId,
                        msg_receiverId = Some senderId, msg_conversationId = conversationId,
                        msg_ecdhPublicKey = Some myECDHPublicKeyBase64,
                        msg_timestamp = Some timestamp, msg_nonce = Some nonce,
                        msg_confirmationHash = Some confirmationHashBase64,
                        msg_deviceInfo = Some deviceInfo, msg_appVersion = Some appVersion,
                        msg_signature = None\<rparr>;
                     messageString = stringify E responseData
                 in case signData E myPrivateKeyBase64 messageString of
                      Inl m \<Rightarrow> (Inl (''Failed to create key exchange response: '' @ m), st)
                    | Inr sg \<Rightarrow>
                        let signed = responseData\<lparr>msg_signature := Some (btoa E sg)\<rparr>;
                            convId = (if truthy_str conversationId then template conversationId
                                      else senderId @ ''_'' @ receiverId)
                        in (case storeSessionKey E now st convId sessionKey (Some timestamp) of
                              (Inl m, st') \<Rightarrow>
                                (Inl (''Failed to create key exchange response: '' @ m), st')
                            | (Inr stored, st') \<Rightarrow>
                                (Inr \<lparr>res_response = signed, res_sessionKey = sessionKey,
                                      res_timestamp = timestamp\<rparr>, st')))"

text \<open>
  \<open>completeKeyExchange\<close>, run by the initiator on the Response: \<open>myId\<close> is the initiator,
  \<open>theirId\<close> the responder.
\<close>

definition completeKeyExchange ::
  "('priv, 'pub, 'key) browser \<Rightarrow> int \<Rightarrow> kx_state \<Rightarrow> envelope \<Rightarrow> 'priv \<Rightarrow> string \<Rightarrow> string
     \<Rightarrow> string \<Rightarrow> string \<Rightarrow> (string + 'key) \<times> kx_state" where
  "completeKeyExchange E now st responseMessage myECDHPrivateKey theirPublicKeyBase64 myId theirId
       conversationId =
     (if \<not> truthy_str (msg_signature responseMessage)
      then (Inl (''Failed to complete key exchange: '' @ ''Missing signature in response''), st)
      else
        let messageString = stringify E (responseMessage\<lparr>msg_signature := None\<rparr>)
        in case atob E (template (msg_signature responseMessage)) of
             Inl m \<Rightarrow> (Inl (''Failed to complete key exchange: '' @ m), st)
           | Inr sg \<Rightarrow>
               if \<not> verifySignature E theirPublicKeyBase64 sg messageString
               then (Inl (''Failed to complete key exchange: '' @ ''Invalid signature in response''),
                     st)
               else if outOfTolerance now (msg_timestamp responseMessage)
               then (Inl (''Failed to complete key exchange: ''
                          @ ''Response timestamp out of tolerance''), st)
               else if msg_nonce responseMessage \<in> kx_seenNonces st
               then (Inl (''Failed to complete key exchange: ''
                          @ ''Nonce already seen (replay attack)''), st)
               else
                 let st1 = st\<lparr>kx_seenNonces :=
                                 insert (msg_nonce responseMessage) (kx_seenNonces st)\<rparr>
                 in case importECDHPublicKey E (msg_ecdhPublicKey responseMessage) of
                      Inl m \<Rightarrow> (Inl (''Failed to complete key exchange: '' @ m), st1)
                    | Inr theirECDHPublicKey \<Rightarrow>
                        (case deriveSharedSecret E myECDHPrivateKey theirECDHPublicKey of
                           Inl m \<Rightarrow> (Inl (''Failed to complete key exchange: '' @ m), st1)
                         | Inr sharedSecret \<Rightarrow>
                             let timestamp = msg_timestamp responseMessage;
                                 ids = sort2 theirId myId
                             in case deriveSessionKeySHA256 E sharedSecret (ids ! 0) (ids ! 1)
                                       timestamp of
                                  Inl m \<Rightarrow> (Inl (''Failed to complete key exchange: '' @ m), st1)
                                | Inr sessionKey \<Rightarrow>
                                    let confirmationData =
                                          ''KEY_CONFIRMED_'' @ theirId @ ''_'' @ myId @ ''_''
                                            @ (case timestamp of None \<Rightarrow> ''undefined''
                                               | Some t \<Rightarrow> toString t);
                                        expectedHash = digest E (encode confirmationData);
                                        expectedHashBase64 = btoa E expectedHash
                                    in if msg_confirmationHash responseMessage
                                            \<noteq> Some expectedHashBase64
                                       then (Inl (''Failed to complete key exchange: ''
                                                  @ ''Confirmation hash mismatch''), st1)
                                       else (case storeSessionKey E now st1 conversationId
                                                     sessionKey timestamp of
                                               (Inl m, st2) \<Rightarrow>
                                                 (Inl (''Failed to complete key exchange: '' @ m),
                                                  st2)
                                             | (Inr stored, st2) \<Rightarrow> (Inr sessionKey, st2))))"

subsection \<open>The hook (useKeyExchange.js)\<close>

text \<open>
  The React state of the hook, and \<open>handleKeyExchangeMessage\<close>, run by the recipient of
  an Init. \<open>keyPair\<close> is the pair \<open>generateECDHKeyPair\<close> draws; \<open>serverOk\<close> and
  \<open>serverError\<close> are the server's answer to the posted Response. \<open>now\<close> is the clock
  during validation, \<open>now'\<close> the clock when the Response is built.
\<close>

record 'key hook_state =
  authUser :: "string option"
  privateKeyBase64 :: "string option"
  isExchanging :: bool
  error :: "string option"
  sessionKeys :: "string \<rightharpoonup> 'key"

definition handleKeyExchangeMessage ::
  "('priv, 'pub, 'key) browser \<Rightarrow> int \<Rightarrow> int \<Rightarrow> string \<Rightarrow> 'pub \<times> 'priv \<Rightarrow> bool \<Rightarrow> string option
     \<Rightarrow> 'key hook_state \<Rightarrow> kx_state \<Rightarrow> envelope \<Rightarrow> string \<Rightarrow> string \<Rightarrow> string option
     \<Rightarrow> bool \<times> 'key hook_state \<times> kx_state" where
  "handleKeyExchangeMessage E now now' randomBytes keyPair serverOk serverError hk st message
       senderId senderPublicKeyBase64 conversationId =
     (if authUser hk = None \<or> \<not> truthy_str (privateKeyBase64 hk)
      then (False, hk\<lparr>error := Some ''Not authenticated or private key not available''\<rparr>, st)
      else
        let hk1 = hk\<lparr>isExchanging := True, error := None\<rparr>
        in case validateKeyExchangeInit E now st message senderPublicKeyBase64 of
             (InvalidInit e, st1) \<Rightarrow>
               (False,
                hk1\<lparr>error := Some (if e = [] then ''Invalid key exchange message'' else e),
                    isExchanging := False\<rparr>,
                st1)
           | (ValidInit theirECDHPublicKey vSenderId vConversationId vTimestamp, st1) \<Rightarrow>
               let convId = (if truthy_str conversationId then conversationId
                             else vConversationId)
               in case createKeyExchangeResponse E now' randomBytes st1 (fst keyPair)
                         theirECDHPublicKey (snd keyPair) senderId
                         (template (privateKeyBase64 hk)) (template (authUser hk)) convId of
                    (Inl m, st2) \<Rightarrow> (False, hk1\<lparr>error := Some m, isExchanging := False\<rparr>, st2)
                  | (Inr responseResult, st2) \<Rightarrow>
                      if \<not> serverOk
                      then (False,
                            hk1\<lparr>error := Some (if truthy_str serverError then template serverError
                                                else ''Failed to send key exchange response''),
                                isExchanging := False\<rparr>,
                            st2)
                      else (True,
                            hk1\<lparr>sessionKeys := (sessionKeys hk1)(template convId \<mapsto>
                                                   res_sessionKey responseResult),
                                isExchanging := False\<rparr>,
                            st2))"

subsection \<open>The confirmation tag, as the code computes it and as the specification words it\<close>

text \<open>
  Both handshake functions hash the string
  \<open>KEY_CONFIRMED_<first>_<second>_<timestamp>\<close> and encode the digest in Base64.
  \<open>confirmationTag\<close> names that value for two ids in a given order.
  \<open>specConfirmationTag\<close> follows the specification's words,
  \<open>Hash("KEY_CONFIRMED" || sorted(peerId, selfId) || timestamp)\<close>: the same string with
  the two ids in sorted order.
\<close>

definition confirmationTag ::
  "('priv, 'pub, 'key) browser \<Rightarrow> string \<Rightarrow> string \<Rightarrow> int \<Rightarrow> string" where
  "confirmationTag E firstId secondId timestamp =
     btoa E (digest E (encode
       (''KEY_CONFIRMED_'' @ firstId @ ''_'' @ secondId @ ''_'' @ toString timestamp)))"

definition specConfirmationTag ::
  "('priv, 'pub, 'key) browser \<Rightarrow> string \<Rightarrow> string \<Rightarrow> int \<Rightarrow> string" where
  "specConfirmationTag E peerId selfId timestamp =
     (let ids = sort2 peerId selfId in confirmationTag E (ids ! 0) (ids ! 1) timestamp)"

text \<open>The tag a responder's result carries, if the responder produced a result.\<close>

definition emittedTag :: "(string + 'key kx_response) \<times> kx_state \<Rightarrow> string option" where
  "emittedTag r =
     (case fst r of Inl m \<Rightarrow> None | Inr out \<Rightarrow> msg_confirmationHash (res_response out))"

text \<open>
  \<open>reachesConfirmation\<close> holds when \<open>completeKeyExchange\<close> passes every step before the
  comparison of the confirmation tag and has derived \<open>sessionKey\<close> there: the signature
  is present, decodes and verifies, the timestamp is inside the tolerance, the nonce is
  new, the peer's ECDH key imports, and the secret and the session key are derived.
\<close>

definition reachesConfirmation ::
  "('priv, 'pub, 'key) browser \<Rightarrow> int \<Rightarrow> kx_state \<Rightarrow> envelope \<Rightarrow> 'priv \<Rightarrow> string \<Rightarrow> string
     \<Rightarrow> string \<Rightarrow> 'key \<Rightarrow> bool" where
  "reachesConfirmation E now st responseMessage myECDHPrivateKey theirPublicKeyBase64 myId theirId
       sessionKey =
     (truthy_str (msg_signature responseMessage) \<and>
      (case atob E (template (msg_signature responseMessage)) of
         Inl m \<Rightarrow> False
       | Inr sg \<Rightarrow>
           verifySignature E theirPublicKeyBase64 sg
             (stringify E (responseMessage\<lparr>msg_signature := None\<rparr>)) \<and>
           \<not> outOfTolerance now (msg_timestamp responseMessage) \<and>
           msg_nonce responseMessage \<notin> kx_seenNonces st \<and>
           (case importECDHPublicKey E (msg_ecdhPublicKey responseMessage) of
              Inl m \<Rightarrow> False
            | Inr theirECDHPublicKey \<Rightarrow>
                (case deriveSharedSecret E myECDHPrivateKey theirECDHPublicKey of
                   Inl m \<Rightarrow> False
                 | Inr sharedSecret \<Rightarrow>
                     deriveSessionKeySHA256 E sharedSecret (sort2 theirId myId ! 0)
                       (sort2 theirId myId ! 1) (msg_timestamp responseMessage)
                       = Inr sessionKey))))"

text \<open>
  The last two statements of \<open>completeKeyExchange\<close>: store the key, then return it.
  \<open>dbAccepts\<close> holds of a browser whose storage works and whose database is not beyond
  version 2, the version \<open>storeSessionKey\<close> asks for; \<open>exportable\<close> holds of a key that
  \<open>exportKey\<close> gives the bytes of.
\<close>

definition storeThenReturn ::
  "('priv, 'pub, 'key) browser \<Rightarrow> int \<Rightarrow> kx_state \<Rightarrow> string \<Rightarrow> 'key \<Rightarrow> int option
     \<Rightarrow> (string + 'key) \<times> kx_state" where
  "storeThenReturn E now st conversationId sessionKey timestamp =
     (case storeSessionKey E now st conversationId sessionKey timestamp of
        (Inl m, st') \<Rightarrow> (Inl (''Failed to complete key exchange: '' @ m), st')
      | (Inr stored, st') \<Rightarrow> (Inr sessionKey, st'))"

definition dbAccepts :: "('priv, 'pub, 'key) browser \<Rightarrow> kx_state \<Rightarrow> bool" where
  "dbAccepts E st =
     (idb_open_error E = None \<and> idb_request_error E = None \<and> dbVersion st \<le> 2)"

definition exportable :: "('priv, 'pub, 'key) browser \<Rightarrow> 'key \<Rightarrow> bool" where
  "exportable E sessionKey =
     (case exportKey_raw E sessionKey of Inl m \<Rightarrow> False | Inr exported \<Rightarrow> True)"


section \<open>Concrete replay-guard states\<close>

definition emptyReplayState :: replay_state where
  "emptyReplayState = \<lparr>seenNonces = Map.empty, seenTimestamps = Map.empty,
     sequenceNumbers = Map.empty, messageHistory = Map.empty, securityLog = []\<rparr>"

text \<open>The state after one accepted message of conversation \<open>c1\<close> with nonce \<open>n1\<close>.\<close>

definition oneNonceState :: replay_state where
  "oneNonceState = snd (validateReplayProtection emptyReplayState 1000 ''c1'' (Some ''n1'')
     (Some 1000) None None None)"

text \<open>An Init envelope that carries neither a nonce nor a timestamp.\<close>

definition bareInit :: envelope where
  "bareInit = \<lparr>msg_type = Some ''KEY_EXCHANGE_INIT'', msg_senderId = Some ''alice'',
     msg_receiverId = Some ''bob'', msg_conversationId = Some ''c1'',
     msg_ecdhPublicKey = Some ''QUJD'', msg_timestamp = None, msg_nonce = None,
     msg_confirmationHash = None, msg_deviceInfo = None, msg_appVersion = None,
     msg_signature = Some ''c2ln''\<rparr>"

definition emptyServer :: server_state where
  "emptyServer = \<lparr>replay = emptyReplayState, keyExchangeStore = Map.empty\<rparr>"

definition bareResponse :: envelope where
  "bareResponse = \<lparr>msg_type = Some ''KEY_EXCHANGE_RESPONSE'', msg_senderId = Some ''bob'',
     msg_receiverId = Some ''alice'', msg_conversationId = Some ''c1'',
     msg_ecdhPublicKey = Some ''QUJD'', msg_timestamp = None, msg_nonce = None,
     msg_confirmationHash = Some ''QUJD'', msg_deviceInfo = None, msg_appVersion = None,
     msg_signature = Some ''c2ln''\<rparr>"


section \<open>A concrete browser\<close>

subsection \<open>SHA-256\<close>

text \<open>
  \<open>crypto.subtle.digest("SHA-256", data)\<close> as FIPS 180-4 defines it. A 32-bit word is a
  natural number below \<open>2 ^ 32\<close>, with the wrap-around of the addition written out.
\<close>

unbundle bit_operations_syntax

definition add32 :: "nat \<Rightarrow> nat \<Rightarrow> nat" where
  "add32 x y = (x + y) mod 4294967296"

definition rotr :: "nat \<Rightarrow> nat \<Rightarrow> nat" where
  "rotr n x = x div 2 ^ n + (x mod 2 ^ n) * 2 ^ (32 - n)"

definition Ch :: "nat \<Rightarrow> nat \<Rightarrow> nat \<Rightarrow> nat" where
  "Ch e f g = (e AND f) XOR ((4294967295 - e) AND g)"

definition Maj :: "nat \<Rightarrow> nat \<Rightarrow> nat \<Rightarrow> nat" where
  "Maj a b c = (a AND b) XOR (a AND c) XOR (b AND c)"

definition bsig0 :: "nat \<Rightarrow> nat" where
  "bsig0 x = rotr 2 x XOR rotr 13 x XOR rotr 22 x"

definition bsig1 :: "nat \<Rightarrow> nat" where
  "bsig1 x = rotr 6 x XOR rotr 11 x XOR rotr 25 x"

definition ssig0 :: "nat \<Rightarrow> nat" where
  "ssig0 x = rotr 7 x XOR rotr 18 x XOR x div 2 ^ 3"

definition ssig1 :: "nat \<Rightarrow> nat" where
  "ssig1 x = rotr 17 x XOR rotr 19 x XOR x div 2 ^ 10"

definition K256 :: "nat list" where
  "K256 = [
     1116352408, 1899447441, 3049323471, 3921009573, 961987163, 1508970993,
     2453635748, 2870763221, 3624381080, 310598401, 607225278, 1426881987,
     1925078388, 2162078206, 2614888103, 3248222580, 3835390401, 4022224774,
     264347078, 604807628, 770255983, 1249150122, 1555081692, 1996064986,
     2554220882, 2821834349, 2952996808, 3210313671, 3336571891, 3584528711,
     113926993, 338241895, 666307205, 773529912, 1294757372, 1396182291,
     1695183700, 1986661051, 2177026350, 2456956037, 2730485921, 2820302411,
     3259730800, 3345764771, 3516065817, 3600352804, 4094571909, 275423344,
     430227734, 506948616, 659060556, 883997877, 958139571, 1322822218,
     1537002063, 1747873779, 1955562222, 2024104815, 2227730452, 2361852424,
     2428436474, 2756734187, 3204031479, 3329325298]"

definition H256 :: "nat list" where
  "H256 = [
     1779033703, 3144134277, 1013904242, 2773480762,
     1359893119, 2600822924, 528734635, 1541459225]"

text \<open>
  The message schedule, newest word first: one more word for every element of the first
  argument.
\<close>

fun extend :: "'a list \<Rightarrow> nat list \<Rightarrow> nat list" where
  "extend [] r = r"
| "extend (_ # ks) r =
     extend ks (add32 (add32 (ssig1 (r ! 1)) (r ! 6)) (add32 (ssig0 (r ! 14)) (r ! 15)) # r)"

fun sha_round :: "nat list \<Rightarrow> nat \<times> nat \<Rightarrow> nat list" where
  "sha_round [a, b, c, d, e, f, g, h] (k, w) =
     (let t1 = add32 (add32 (add32 h (bsig1 e)) (add32 (Ch e f g) k)) w;
          t2 = add32 (bsig0 a) (Maj a b c)
      in [add32 t1 t2, a, b, c, add32 d t1, e, f, g])"
| "sha_round s _ = s"

fun words_of :: "nat list \<Rightarrow> nat list" where
  "words_of (a # b # c # d # r) = (a * 16777216 + b * 65536 + c * 256 + d) # words_of r"
| "words_of _ = []"

definition compress :: "nat list \<Rightarrow> nat list \<Rightarrow> nat list" where
  "compress hs block =
     (let w = rev (extend (drop 16 K256) (rev block))
      in map2 add32 hs (foldl sha_round hs (zip K256 w)))"

fun blocks :: "nat list \<Rightarrow> nat list list" where
  "blocks (w0 # w1 # w2 # w3 # w4 # w5 # w6 # w7 # w8 # w9 # w10 # w11 # w12 # w13 # w14 # w15 # r) =
     [w0, w1, w2, w3, w4, w5, w6, w7, w8, w9, w10, w11, w12, w13, w14, w15] # blocks r"
| "blocks _ = []"

definition len :: "'a list \<Rightarrow> nat" where
  "len xs = foldr (\<lambda>_ n. n + 1) xs 0"

definition be_bytes4 :: "nat \<Rightarrow> nat list" where
  "be_bytes4 n = [n div 16777216 mod 256, n div 65536 mod 256, n div 256 mod 256, n mod 256]"

definition pad :: "nat list \<Rightarrow> nat list" where
  "pad m = m @ [128] @ replicate ((119 - len m mod 64) mod 64) 0
             @ be_bytes4 (8 * len m div 4294967296) @ be_bytes4 (8 * len m mod 4294967296)"

definition sha256_bytes :: "nat list \<Rightarrow> nat list" where
  "sha256_bytes m = concat (map be_bytes4 (foldl compress H256 (blocks (words_of (pad m)))))"

definition sha256 :: "string \<Rightarrow> string" where
  "sha256 m = map char_of (sha256_bytes (map of_char m))"

subsection \<open>Base64\<close>

text \<open>
  \<open>btoa\<close> on a binary string, and \<open>atob\<close> on canonical padded Base64 (the forgiving
  variants \<open>atob\<close> also accepts, such as embedded white space, are rejected here).
\<close>

definition b64char :: "nat \<Rightarrow> char" where
  "b64char i = (if i < 26 then char_of (65 + i)
                else if i < 52 then char_of (71 + i)
                else if i < 62 then char_of (i - 4)
                else if i = 62 then CHR ''+'' else CHR ''/'')"

definition b64index :: "char \<Rightarrow> nat option" where
  "b64index c =
     (let n = (of_char c :: nat)
      in if 65 \<le> n \<and> n \<le> 90 then Some (n - 65)
         else if 97 \<le> n \<and> n \<le> 122 then Some (n - 71)
         else if 48 \<le> n \<and> n \<le> 57 then Some (n + 4)
         else if c = CHR ''+'' then Some 62
         else if c = CHR ''/'' then Some 63
         else None)"

fun base64 :: "string \<Rightarrow> string" where
  "base64 (a # b # c # r) =
     (let x = (of_char a :: nat); y = (of_char b :: nat); z = (of_char c :: nat)
      in b64char (x div 4) # b64char (x mod 4 * 16 + y div 16)
           # b64char (y mod 16 * 4 + z div 64) # b64char (z mod 64) # base64 r)"
| "base64 [a, b] =
     (let x = (of_char a :: nat); y = (of_char b :: nat)
      in [b64char (x div 4), b64char (x mod 4 * 16 + y div 16), b64char (y mod 16 * 4), CHR ''=''])"
| "base64 [a] =
     (let x = (of_char a :: nat)
      in [b64char (x div 4), b64char (x mod 4 * 16), CHR ''='', CHR ''=''])"
| "base64 [] = []"

fun unbase64 :: "string \<Rightarrow> string + string" where
  "unbase64 (c1 # c2 # c3 # c4 # r) =
     (case (b64index c1, b64index c2) of
        (Some i1, Some i2) \<Rightarrow>
          if r = [] \<and> c3 = CHR ''='' \<and> c4 = CHR ''=''
          then Inr [char_of (i1 * 4 + i2 div 16)]
          else (case b64index c3 of
                  None \<Rightarrow> Inl ''InvalidCharacterError''
                | Some i3 \<Rightarrow>
                    if r = [] \<and> c4 = CHR ''=''
                    then Inr [char_of (i1 * 4 + i2 div 16), char_of (i2 mod 16 * 16 + i3 div 4)]
                    else (case (b64index c4, unbase64 r) of
                            (Some i4, Inr rest) \<Rightarrow>
                              Inr (char_of (i1 * 4 + i2 div 16) # char_of (i2 mod 16 * 16 + i3 div 4)
                                     # char_of (i3 mod 4 * 64 + i4) # rest)
                          | _ \<Rightarrow> Inl ''InvalidCharacterError''))
      | _ \<Rightarrow> Inl ''InvalidCharacterError'')"
| "unbase64 [] = Inr []"
| "unbase64 _ = Inl ''InvalidCharacterError''"

subsection \<open>JSON, signatures and key agreement\<close>

text \<open>
  \<open>JSON.stringify\<close> of an envelope whose properties were inserted in the order of the
  object literals above, for string values that need no escaping; a property that is
  \<open>undefined\<close> is left out.
\<close>

definition quoted :: "string \<Rightarrow> string" where
  "quoted s = CHR 0x22 # s @ [CHR 0x22]"

definition jsonField :: "string \<Rightarrow> string option \<Rightarrow> string list" where
  "jsonField name v =
     (case v of None \<Rightarrow> [] | Some s \<Rightarrow> [quoted name @ '':'' @ quoted s])"

definition jsonNumber :: "string \<Rightarrow> int option \<Rightarrow> string list" where
  "jsonNumber name v =
     (case v of None \<Rightarrow> [] | Some i \<Rightarrow> [quoted name @ '':'' @ toString i])"

fun commas :: "string list \<Rightarrow> string" where
  "commas [] = []"
| "commas [x] = x"
| "commas (x # y # r) = x @ '','' @ commas (y # r)"

definition jsonStringify :: "envelope \<Rightarrow> string" where
  "jsonStringify m =
     ''{'' @ commas (jsonField ''type'' (msg_type m) @ jsonField ''senderId'' (msg_senderId m)
              @ jsonField ''receiverId'' (msg_receiverId m)
              @ jsonField ''conversationId'' (msg_conversationId m)
              @ jsonField ''ecdhPublicKey'' (msg_ecdhPublicKey m)
              @ jsonNumber ''timestamp'' (msg_timestamp m) @ jsonField ''nonce'' (msg_nonce m)
              @ jsonField ''confirmationHash'' (msg_confirmationHash m)
              @ jsonField ''deviceInfo'' (msg_deviceInfo m)
              @ jsonField ''appVersion'' (msg_appVersion m)
              @ jsonField ''signature'' (msg_signature m)) @ ''}''"

text \<open>
  Stand-ins for the asymmetric primitives, small enough to evaluate. A signature is the
  signer's key followed by the signed data, and it verifies under the same key for exactly
  that data. Key agreement is Diffie-Hellman in the multiplicative group modulo 23 with
  generator 5: a private key is an exponent, a public key a group element.
\<close>

definition demoSign :: "string \<Rightarrow> string \<Rightarrow> string + string" where
  "demoSign key dat = (if key = [] then Inl ''DataError'' else Inr (key @ dat))"

definition demoVerify :: "string \<Rightarrow> string \<Rightarrow> string \<Rightarrow> string + bool" where
  "demoVerify key sg dat = (if key = [] then Inl ''DataError'' else Inr (sg = key @ dat))"

definition demoPublic :: "nat \<Rightarrow> nat" where
  "demoPublic a = 5 ^ a mod 23"

definition demoDeriveBits :: "nat \<Rightarrow> nat \<Rightarrow> string + string" where
  "demoDeriveBits a B = (if B mod 23 = 0 then Inl ''OperationError'' else Inr [char_of (B ^ a mod 23)])"

definition demoImportSpki :: "string \<Rightarrow> string + nat" where
  "demoImportSpki s = (case s of [c] \<Rightarrow> Inr (of_char c) | _ \<Rightarrow> Inl ''DataError'')"

definition demoBrowser :: "(nat, nat, string) browser" where
  "demoBrowser =
     \<lparr>digest = sha256, btoa = base64, atob = unbase64, stringify = jsonStringify,
      subtle_sign = demoSign, subtle_verify = demoVerify, deriveBits = demoDeriveBits,
      exportKey_spki = (\<lambda>B. [char_of B]), importKey_spki = demoImportSpki,
      importKey_raw = Inr, exportKey_raw = Inr, userAgent = ''demo'',
      idb_open_error = None, idb_request_error = None\<rparr>"

text \<open>
  The recursive equations of the encoder, the decoder and the decimal digits are applied
  only where a proof asks for them.
\<close>

declare base64.simps [simp del] unbase64.simps [simp del] digits.simps [simp del]


section \<open>A handshake on concrete values\<close>

text \<open>
  Alice (RSA key \<open>ka\<close>, ECDH exponent 6) initiates conversation \<open>c1\<close> with Bob (RSA
  key \<open>kb\<close>, ECDH exponent 15); their shared secret is the byte 2. In a second run of
  the same second Bob answers with exponent 3 to Alice's exponent 4, and the shared secret
  is the byte 18. The envelopes are those the functions build from these values, and the
  two session keys are the SHA-256 digests the key derivation computes. \<open>emptyClient\<close>
  is a fresh browser: no nonce seen, no database yet.
\<close>

definition emptyClient :: kx_state where
  "emptyClient = \<lparr>kx_seenNonces = {}, dbVersion = 0, sessionKeyStore = None\<rparr>"

definition aliceInitData :: envelope where
  "aliceInitData =
     \<lparr>msg_type = Some ''KEY_EXCHANGE_INIT'', msg_senderId = Some ''alice'',
      msg_receiverId = Some ''bob'', msg_conversationId = Some ''c1'',
      msg_ecdhPublicKey = Some ''CA=='', msg_timestamp = Some 1700000000000,
      msg_nonce = Some ''cm5kLWE='', msg_confirmationHash = None,
      msg_deviceInfo = Some ''demo'', msg_appVersion = Some ''1.0.0'', msg_signature = None\<rparr>"

definition aliceInit :: envelope where
  "aliceInit = aliceInitData\<lparr>msg_signature := Some (base64 (''ka'' @ jsonStringify aliceInitData))\<rparr>"

definition tamperedInit :: envelope where
  "tamperedInit = aliceInit\<lparr>msg_ecdhPublicKey := Some ''Cg==''\<rparr>"

definition bobHook :: "string hook_state" where
  "bobHook = \<lparr>authUser = Some ''bob'', privateKeyBase64 = Some ''kb'', isExchanging = False,
     error = None, sessionKeys = Map.empty\<rparr>"

definition bobResponseData :: envelope where
  "bobResponseData =
     \<lparr>msg_type = Some ''KEY_EXCHANGE_RESPONSE'', msg_senderId = Some ''bob'',
      msg_receiverId = Some ''alice'', msg_conversationId = Some ''c1'',
      msg_ecdhPublicKey = Some ''Ew=='', msg_timestamp = Some 1700000001000,
      msg_nonce = Some ''cm5kLWI='',
      msg_confirmationHash = Some ''EdAaBCSLta1TwAClw02lpfnjMbBksiQ7RrQ3+tgQvDs='',
      msg_deviceInfo = Some ''demo'', msg_appVersion = Some ''1.0.0'', msg_signature = None\<rparr>"

definition signedBy :: "string \<Rightarrow> envelope \<Rightarrow> envelope" where
  "signedBy key m = m\<lparr>msg_signature := Some (base64 (key @ jsonStringify m))\<rparr>"

definition bobResponse :: envelope where
  "bobResponse = signedBy ''kb'' bobResponseData"


definition tamperedResponse :: envelope where
  "tamperedResponse = bobResponse\<lparr>msg_ecdhPublicKey := Some ''Cg==''\<rparr>"

definition forgedResponse :: envelope where
  "forgedResponse = signedBy ''kb'' (bobResponseData\<lparr>msg_confirmationHash := Some ''AAAA''\<rparr>)"

definition sessionKey2 :: string where
  "sessionKey2 = map char_of
     [60, 167, 102, 163, 107, 245, 44, 60, 126, 178, 72, 31, 176, 47, 57, 2, 91, 186,
      121, 110, 139, 225, 181, 192, 190, 55, 94, 230, 210, 21, 129, 180 :: nat]"

definition sessionKey18 :: string where
  "sessionKey18 = map char_of
     [144, 242, 154, 24, 74, 214, 109, 97, 38, 31, 223, 194, 246, 116, 16, 81, 179,
      161, 92, 151, 218, 73, 101, 232, 66, 250, 173, 29, 101, 223, 173, 4 :: nat]"



definition storedClient :: kx_state where
  "storedClient = snd (storeSessionKey demoBrowser 1700000001000 emptyClient ''c1'' sessionKey2
                         (Some 1700000001000))"


section \<open>Properties of the replay guard\<close>

subsection \<open>What each check leaves untouched\<close>

lemma validateNonce_keeps:
  "seenTimestamps (snd (validateNonce st c n)) = seenTimestamps st \<and>
   sequenceNumbers (snd (validateNonce st c n)) = sequenceNumbers st \<and>
   messageHistory (snd (validateNonce st c n)) = messageHistory st"
  by (simp add: validateNonce_def logReplayAttack_def Let_def)

lemma validateTimestamp_seenNonces:
  "seenNonces (snd (validateTimestamp st now c t)) = seenNonces st"
  by (simp add: validateTimestamp_def logReplayAttack_def Let_def split: option.splits)

lemma validateSequenceNumber_seenNonces:
  "seenNonces (snd (validateSequenceNumber st c s m)) = seenNonces st"
  by (simp add: validateSequenceNumber_def logReplayAttack_def Let_def split: option.splits)

lemma validateNonce_duplicate:
  assumes "n \<noteq> []" "n \<in> recordedNonces st c"
  shows "fst (validateNonce st c (Some n)) = False"
    and "seenNonces (snd (validateNonce st c (Some n))) = seenNonces st"
  using assms
  by (auto simp: validateNonce_def recordedNonces_def truthy_str_def template_def
      logReplayAttack_def Let_def split: option.splits)

lemma validateNonce_fresh:
  assumes "n \<noteq> []" "c \<noteq> []" "n \<notin> recordedNonces st c"
  shows "fst (validateNonce st c (Some n)) = True"
    and "recordedNonces (snd (validateNonce st c (Some n))) c = insert n (recordedNonces st c)"
  using assms
  by (auto simp: validateNonce_def recordedNonces_def truthy_str_def template_def
      logReplayAttack_def Let_def split: option.splits)

lemma seq_case_snd:
  "snd (case p of (Inl e, s) \<Rightarrow> (Inl e, s)
        | (Inr ok, s) \<Rightarrow> if \<not> ok then (A, s) else (B, s)) = snd p"
  by (cases p) (auto split: sum.splits)

lemma vrp_seenNonces:
  "seenNonces (snd (validateReplayProtection st now c nonce t s m sc))
     = seenNonces (if truthy_str nonce then snd (validateNonce st c nonce) else st)"
proof -
  obtain b st1 where n: "(if truthy_str nonce then validateNonce st c nonce else (True, st)) = (b, st1)"
    by (cases "if truthy_str nonce then validateNonce st c nonce else (True, st)")
  obtain b2 st2 where ts: "(if truthy_num t then validateTimestamp st1 now c t else (True, st1)) = (b2, st2)"
    by (cases "if truthy_num t then validateTimestamp st1 now c t else (True, st1)")
  have st1: "st1 = (if truthy_str nonce then snd (validateNonce st c nonce) else st)"
    using n by (auto split: if_splits)
  have st2: "seenNonces st2 = seenNonces st1"
    using ts validateTimestamp_seenNonces [of st1 now c t] by (auto split: if_splits)
  have "seenNonces (snd (validateReplayProtection st now c nonce t s m sc)) = seenNonces st1"
    unfolding validateReplayProtection_def n ts Let_def prod.case
    using st2 by (simp add: seq_case_snd validateSequenceNumber_seenNonces split: option.splits)
  then show ?thesis by (simp add: st1)
qed

lemma validateTimestamp_outside:
  assumes "\<bar>now - t\<bar> > TIMESTAMP_TOLERANCE"
  shows "fst (validateTimestamp st now c (Some t)) = False"
  using assms by (auto simp: validateTimestamp_def Let_def)

lemma validateTimestamp_inside:
  assumes "c \<noteq> []" "t \<noteq> 0" "\<bar>now - t\<bar> \<le> TIMESTAMP_TOLERANCE"
  shows "fst (validateTimestamp st now c (Some t)) = True"
  using assms by (auto simp: validateTimestamp_def Let_def)

lemma oneNonceState_recorded: "recordedNonces oneNonceState ''c1'' = {''n1''}"
  by (simp add: oneNonceState_def validateReplayProtection_def validateNonce_def
      validateTimestamp_def emptyReplayState_def recordedNonces_def truthy_str_def truthy_num_def
      template_def TIMESTAMP_TOLERANCE_def MAX_TIMESTAMPS_PER_CONVERSATION_def Let_def)

subsection \<open>Nonce check\<close>

text \<open>
  C3: a replay-guard call whose non-empty nonce is already recorded for the context is
  rejected with the reason "Invalid or duplicate nonce", whatever timestamp, sequence
  number and clock reading come with it, and the timestamp and sequence state are not
  touched: the nonce check runs first and short-circuits. A non-empty nonce that is not
  yet recorded for a non-empty context is recorded by the call, whatever the later
  checks decide.
\<close>

theorem C3_duplicate_nonce_rejected:
  assumes "n \<noteq> []"
  shows "(n \<in> recordedNonces st c \<longrightarrow>
           fst (validateReplayProtection st now c (Some n) t s m sc)
             = Inr (Validation False (Some ''Invalid or duplicate nonce'')) \<and>
           seenNonces (snd (validateReplayProtection st now c (Some n) t s m sc)) = seenNonces st \<and>
           seenTimestamps (snd (validateReplayProtection st now c (Some n) t s m sc)) = seenTimestamps st \<and>
           sequenceNumbers (snd (validateReplayProtection st now c (Some n) t s m sc)) = sequenceNumbers st \<and>
           messageHistory (snd (validateReplayProtection st now c (Some n) t s m sc)) = messageHistory st) \<and>
         (c \<noteq> [] \<and> n \<notin> recordedNonces st c \<longrightarrow>
           n \<in> recordedNonces (snd (validateReplayProtection st now c (Some n) t s m sc)) c)"
proof (intro conjI impI)
  assume dup: "n \<in> recordedNonces st c"
  have f: "fst (validateNonce st c (Some n)) = False"
    by (rule validateNonce_duplicate(1) [OF assms dup])
  obtain b st1 where vn: "validateNonce st c (Some n) = (b, st1)" by (cases "validateNonce st c (Some n)")
  with f have b: "b = False" by simp
  have res: "validateReplayProtection st now c (Some n) t s m sc
      = (Inr (Validation False (Some ''Invalid or duplicate nonce'')), st1)"
    using assms by (simp add: validateReplayProtection_def truthy_str_def vn b)
  show "fst (validateReplayProtection st now c (Some n) t s m sc)
             = Inr (Validation False (Some ''Invalid or duplicate nonce''))"
    by (simp add: res)
  have st1: "st1 = snd (validateNonce st c (Some n))" by (simp add: vn)
  show "seenNonces (snd (validateReplayProtection st now c (Some n) t s m sc)) = seenNonces st"
    by (simp add: res st1 validateNonce_duplicate(2) [OF assms dup])
  show "seenTimestamps (snd (validateReplayProtection st now c (Some n) t s m sc)) = seenTimestamps st"
    by (simp add: res st1 validateNonce_keeps)
  show "sequenceNumbers (snd (validateReplayProtection st now c (Some n) t s m sc)) = sequenceNumbers st"
    by (simp add: res st1 validateNonce_keeps)
  show "messageHistory (snd (validateReplayProtection st now c (Some n) t s m sc)) = messageHistory st"
    by (simp add: res st1 validateNonce_keeps)
next
  assume "c \<noteq> [] \<and> n \<notin> recordedNonces st c"
  then have c: "c \<noteq> []" and fresh: "n \<notin> recordedNonces st c" by simp_all
  have rec: "recordedNonces st' c = recordedNonces st'' c" if "seenNonces st' = seenNonces st''" for st' st''
    using that by (simp add: recordedNonces_def)
  obtain st1 where vn: "validateNonce st c (Some n) = (True, st1)"
    using validateNonce_fresh(1) [OF assms c fresh] by (cases "validateNonce st c (Some n)") simp
  have in1: "n \<in> recordedNonces st1 c"
    using validateNonce_fresh(2) [OF assms c fresh] by (simp add: vn)
  have "seenNonces (snd (validateReplayProtection st now c (Some n) t s m sc)) = seenNonces st1"
    using vrp_seenNonces [of st now c "Some n" t s m sc] assms by (simp add: truthy_str_def vn)
  from rec [OF this] in1
  show "n \<in> recordedNonces (snd (validateReplayProtection st now c (Some n) t s m sc)) c" by simp
qed

theorem C3_duplicate_nonce_rejected_witness:
  "fst (validateReplayProtection oneNonceState 999999999 ''c1'' (Some ''n1'') (Some 1500) None None None)
     = Inr (Validation False (Some ''Invalid or duplicate nonce'')) \<and>
   seenTimestamps (snd (validateReplayProtection oneNonceState 999999999 ''c1'' (Some ''n1'')
     (Some 1500) None None None)) = seenTimestamps oneNonceState \<and>
   ''n2'' \<in> recordedNonces (snd (validateReplayProtection oneNonceState 999999999 ''c1'' (Some ''n2'')
     (Some 1500) None None None)) ''c1''"
  using C3_duplicate_nonce_rejected [of "''n1''" oneNonceState "''c1''" 999999999 "Some 1500" None None None]
    C3_duplicate_nonce_rejected [of "''n2''" oneNonceState "''c1''" 999999999 "Some 1500" None None None]
  by (simp add: oneNonceState_recorded)

subsection \<open>Timestamp check\<close>

text \<open>
  C7: a message whose non-zero timestamp \<open>t\<close> has \<open>|now - t|\<close> above the five-minute
  tolerance is rejected by the replay guard in every context and with every nonce; when
  the context is non-empty and the nonce is fresh (non-empty and not yet recorded), the
  rejection carries the timestamp reason. Both directions are covered: older than
  \<open>now - tolerance\<close> and later than \<open>now + tolerance\<close>.
\<close>

theorem C7_timestamp_outside_window_rejected:
  assumes "t \<noteq> 0" and "\<bar>now - t\<bar> > TIMESTAMP_TOLERANCE"
  shows "(\<exists>r. fst (validateReplayProtection st now c nonce (Some t) s m sc)
              = Inr (Validation False (Some r))) \<and>
         (c \<noteq> [] \<and> n \<noteq> [] \<and> n \<notin> recordedNonces st c \<longrightarrow>
            fst (validateReplayProtection st now c (Some n) (Some t) s m sc)
              = Inr (Validation False
                  (Some ''Invalid timestamp (outside tolerance window or future timestamp)'')))"
proof (intro conjI impI)
  obtain b st1 where n: "(if truthy_str nonce then validateNonce st c nonce else (True, st)) = (b, st1)"
    by (cases "if truthy_str nonce then validateNonce st c nonce else (True, st)")
  obtain st2 where ts: "validateTimestamp st1 now c (Some t) = (False, st2)"
    using validateTimestamp_outside [OF assms(2), of st1 c]
    by (cases "validateTimestamp st1 now c (Some t)") simp
  show "\<exists>r. fst (validateReplayProtection st now c nonce (Some t) s m sc)
              = Inr (Validation False (Some r))"
    unfolding validateReplayProtection_def n Let_def prod.case
    using assms(1) by (simp add: truthy_num_def ts)
next
  assume "c \<noteq> [] \<and> n \<noteq> [] \<and> n \<notin> recordedNonces st c"
  then have c: "c \<noteq> []" and n: "n \<noteq> []" and fresh: "n \<notin> recordedNonces st c" by simp_all
  obtain st1 where vn: "validateNonce st c (Some n) = (True, st1)"
    using validateNonce_fresh(1) [OF n c fresh] by (cases "validateNonce st c (Some n)") simp
  obtain st2 where ts: "validateTimestamp st1 now c (Some t) = (False, st2)"
    using validateTimestamp_outside [OF assms(2), of st1 c]
    by (cases "validateTimestamp st1 now c (Some t)") simp
  show "fst (validateReplayProtection st now c (Some n) (Some t) s m sc)
              = Inr (Validation False
                  (Some ''Invalid timestamp (outside tolerance window or future timestamp)''))"
    unfolding validateReplayProtection_def
    using assms(1) n by (simp add: truthy_num_def truthy_str_def vn ts)
qed

theorem C7_timestamp_outside_window_rejected_witness:
  "fst (validateReplayProtection oneNonceState 1000000 ''c1'' (Some ''n2'') (Some 699999) None None None)
     = Inr (Validation False
         (Some ''Invalid timestamp (outside tolerance window or future timestamp)'')) \<and>
   fst (validateReplayProtection oneNonceState 1000000 ''c1'' (Some ''n2'') (Some 1300001) None None None)
     = Inr (Validation False
         (Some ''Invalid timestamp (outside tolerance window or future timestamp)''))"
  using C7_timestamp_outside_window_rejected [of 699999 1000000 oneNonceState "''c1''" "Some ''n2''" None None None "''n2''"]
    C7_timestamp_outside_window_rejected [of 1300001 1000000 oneNonceState "''c1''" "Some ''n2''" None None None "''n2''"]
  by (simp add: oneNonceState_recorded TIMESTAMP_TOLERANCE_def)

subsection \<open>Sequence check\<close>

lemma validateSequenceNumber_too_old:
  assumes "c \<noteq> []" and "sequenceNumbers st c = Some H" and "messageHistory st c = Some h"
    and "h sn = None" and "sn < H - SEQUENCE_WINDOW"
  shows "validateSequenceNumber st c (Some sn) m = (Inl (ReferenceError ''conversationId is not defined''), st)"
  using assms by (simp add: validateSequenceNumber_def Let_def)

text \<open>
  C6: the sequence context \<open>c1\<close> has accepted sequence number 200, so its high-water
  mark is 200. Sequence number 50 was never seen and lies below \<open>200 - 100\<close>. Instead of
  returning a rejection, \<open>validateSequenceNumber\<close> throws a ReferenceError, and so does
  \<open>validateReplayProtection\<close>, which calls it outside any \<open>try\<close>.
\<close>

theorem C6_sequence_behind_window_throws:
  "fst (validateSequenceNumber
          (snd (validateSequenceNumber emptyReplayState ''c1'' (Some 200) (Some ''m200'')))
          ''c1'' (Some 50) (Some ''m50''))
     = Inl (ReferenceError ''conversationId is not defined'') \<and>
   fst (validateReplayProtection
          (snd (validateReplayProtection emptyReplayState 1000 ''c1'' None None (Some 200)
                  (Some ''m200'') None))
          1000 ''c1'' None None (Some 50) (Some ''m50'') None)
     = Inl (ReferenceError ''conversationId is not defined'')"
  by (simp add: validateReplayProtection_def validateSequenceNumber_def emptyReplayState_def
      truthy_str_def truthy_num_def SEQUENCE_WINDOW_def Let_def)

subsection \<open>Falsy inputs\<close>

lemma clock_default_accepted:
  assumes "conv \<noteq> []" and "\<not> truthy_str nonce" and "now1 \<le> now2"
    and "now2 - now1 \<le> TIMESTAMP_TOLERANCE"
  shows "\<exists>rs. validateReplayProtection rst now2 conv nonce (Some now1) None None None
           = (Inr (Validation True None), rs)"
proof (cases "now1 = 0")
  case True
  then show ?thesis using assms by (simp add: validateReplayProtection_def truthy_num_def)
next
  case False
  have "fst (validateTimestamp rst now2 conv (Some now1)) = True"
    using assms by (intro validateTimestamp_inside [OF assms(1) False]) auto
  then obtain rs where "validateTimestamp rst now2 conv (Some now1) = (True, rs)"
    by (cases "validateTimestamp rst now2 conv (Some now1)") simp
  then show ?thesis using assms False by (simp add: validateReplayProtection_def truthy_num_def)
qed

text \<open>
  C9: with a missing or empty nonce, a missing or zero timestamp and no sequence number,
  \<open>validateReplayProtection\<close> returns \<open>{ valid: true }\<close> and leaves the whole state as it
  was. The key-exchange endpoint accepts (status 200) an Init envelope of the
  authenticated sender that omits both, and so does the endpoint for a Response: the
  nonce check is skipped, and the missing timestamp is replaced by the handler's own clock
  reading, which is inside the window when the handler reaches the check within five
  minutes.
\<close>

theorem C9_falsy_inputs_skip_all_checks:
  assumes "\<not> truthy_str nonce" and "\<not> truthy_num timestamp"
  shows "validateReplayProtection st now c nonce timestamp None m sc
           = (Inr (Validation True None), st) \<and>
         (msg_senderId message = Some userId \<and>
          msg_nonce message = nonce \<and> msg_timestamp message = timestamp \<and>
          now1 \<le> now2 \<and> now2 - now1 \<le> TIMESTAMP_TOLERANCE \<longrightarrow>
          (msg_type message = Some ''KEY_EXCHANGE_INIT'' \<longrightarrow>
             fst (initiateKeyExchange srv now1 now2 now3 message userId)
               = HttpResponse 200 ''Key exchange initiation stored'') \<and>
          (msg_type message = Some ''KEY_EXCHANGE_RESPONSE'' \<longrightarrow>
             fst (respondToKeyExchange srv now1 now2 now3 message userId)
               = HttpResponse 200 ''Key exchange response stored''))"
proof (intro conjI impI)
  show "validateReplayProtection st now c nonce timestamp None m sc
           = (Inr (Validation True None), st)"
    using assms by (simp add: validateReplayProtection_def)
next
  assume h: "msg_senderId message = Some userId \<and>
          msg_nonce message = nonce \<and> msg_timestamp message = timestamp \<and>
          now1 \<le> now2 \<and> now2 - now1 \<le> TIMESTAMP_TOLERANCE"
    and t: "msg_type message = Some ''KEY_EXCHANGE_INIT''"
  define conv where "conv =
              (if truthy_str (msg_conversationId message) then template (msg_conversationId message)
               else template (msg_senderId message) @ ''_'' @ template (msg_receiverId message))"
  have conv: "conv \<noteq> []"
    by (auto simp: conv_def truthy_str_def template_def split: option.splits)
  from clock_default_accepted [OF conv assms(1), of now1 now2 "replay srv"] h
  obtain rs where "validateReplayProtection (replay srv) now2 conv nonce (Some now1) None None None
          = (Inr (Validation True None), rs)" by blast
  then show "fst (initiateKeyExchange srv now1 now2 now3 message userId)
            = HttpResponse 200 ''Key exchange initiation stored''"
    using h t assms by (simp add: initiateKeyExchange_def conv_def [symmetric] Let_def)
next
  assume h: "msg_senderId message = Some userId \<and>
          msg_nonce message = nonce \<and> msg_timestamp message = timestamp \<and>
          now1 \<le> now2 \<and> now2 - now1 \<le> TIMESTAMP_TOLERANCE"
    and t: "msg_type message = Some ''KEY_EXCHANGE_RESPONSE''"
  define conv where "conv =
              (if truthy_str (msg_conversationId message) then template (msg_conversationId message)
               else template (msg_receiverId message) @ ''_'' @ template (msg_senderId message))"
  have conv: "conv \<noteq> []"
    by (auto simp: conv_def truthy_str_def template_def split: option.splits)
  from clock_default_accepted [OF conv assms(1), of now1 now2 "replay srv"] h
  obtain rs where "validateReplayProtection (replay srv) now2 conv nonce (Some now1) None None None
          = (Inr (Validation True None), rs)" by blast
  then show "fst (respondToKeyExchange srv now1 now2 now3 message userId)
            = HttpResponse 200 ''Key exchange response stored''"
    using h t assms by (simp add: respondToKeyExchange_def conv_def [symmetric] Let_def)
qed

theorem C9_falsy_inputs_skip_all_checks_witness:
  "validateReplayProtection oneNonceState 5000 ''c1'' (Some []) (Some 0) None None None
     = (Inr (Validation True None), oneNonceState) \<and>
   validateReplayProtection oneNonceState 5000 ''c1'' None None None None None
     = (Inr (Validation True None), oneNonceState) \<and>
   fst (initiateKeyExchange emptyServer 5000 5001 5002 bareInit ''alice'')
     = HttpResponse 200 ''Key exchange initiation stored'' \<and>
   fst (respondToKeyExchange emptyServer 5000 5001 5002 bareResponse ''bob'')
     = HttpResponse 200 ''Key exchange response stored''"
  using C9_falsy_inputs_skip_all_checks [of "Some []" "Some 0" oneNonceState 5000 "''c1''" None None
      bareInit "''alice''" 5000 5001 emptyServer 5002]
    C9_falsy_inputs_skip_all_checks [of None None oneNonceState 5000 "''c1''" None None
      bareInit "''alice''" 5000 5001 emptyServer 5002]
    C9_falsy_inputs_skip_all_checks [of None None oneNonceState 5000 "''c1''" None None
      bareResponse "''bob''" 5000 5001 emptyServer 5002]
  by (simp add: truthy_str_def truthy_num_def bareInit_def bareResponse_def
      TIMESTAMP_TOLERANCE_def)



section \<open>Properties of the session store\<close>

lemma indexedDB_open_Inr_iff:
  "indexedDB_open E v h st = Inr db \<longleftrightarrow>
     idb_open_error E = None \<and> dbVersion st \<le> v \<and>
     db = (if dbVersion st < v
           then st\<lparr>dbVersion := v,
                   sessionKeyStore := (if h \<and> sessionKeyStore st = None then Some Map.empty
                                       else sessionKeyStore st)\<rparr>
           else st)"
  by (auto simp: indexedDB_open_def split: option.splits)

lemma indexedDB_open_version_error:
  "idb_open_error E = None \<Longrightarrow> v < dbVersion st \<Longrightarrow> indexedDB_open E v h st = Inl ''VersionError''"
  by (simp add: indexedDB_open_def)

lemma storeSessionKey_InrE:
  assumes "storeSessionKey E now st c k ts = (Inr stored, st')"
  obtains db upgradeDb exported store where
    "indexedDB_open E 2 True st = Inr db"
    "(if sessionKeyStore db = None then indexedDB_open E 3 True db else Inr db) = Inr upgradeDb"
    "exportKey_raw E k = Inr exported"
    "idb_request_error E = None"
    "sessionKeyStore upgradeDb = Some store"
    "stored = True"
    "st' = upgradeDb\<lparr>sessionKeyStore := Some (store(''sessionKey-'' @ c \<mapsto>
             \<lparr>kd_key = exported, kd_timestamp = orNow ts now,
              kd_expiresAt = orNow ts now + SESSION_KEY_EXPIRY\<rparr>))\<rparr>"
proof -
  have three: "(2::nat) + 1 = 3" by simp
  note d = storeSessionKey_def Let_def three
  obtain db where o1: "indexedDB_open E 2 True st = Inr db"
    using assms unfolding d by (cases "indexedDB_open E 2 True st") simp_all
  obtain upgradeDb where o2:
    "(if sessionKeyStore db = None then indexedDB_open E 3 True db else Inr db) = Inr upgradeDb"
    using assms o1 unfolding d
    by (cases "if sessionKeyStore db = None then indexedDB_open E 3 True db else Inr db")
      simp_all
  obtain exported where x: "exportKey_raw E k = Inr exported"
    using assms o1 o2 unfolding d by (cases "exportKey_raw E k") simp_all
  have a: "(case idb_request_error E of Some m \<Rightarrow> (Inl m, upgradeDb)
            | None \<Rightarrow> (case sessionKeyStore upgradeDb of None \<Rightarrow> (Inl ''NotFoundError'', upgradeDb)
                 | Some store \<Rightarrow> (Inr True, upgradeDb\<lparr>sessionKeyStore := Some (store(''sessionKey-'' @ c \<mapsto>
             \<lparr>kd_key = exported, kd_timestamp = orNow ts now,
              kd_expiresAt = orNow ts now + SESSION_KEY_EXPIRY\<rparr>))\<rparr>)))
           = (Inr stored, st')"
    using assms o1 o2 x unfolding d by simp
  then have r: "idb_request_error E = None" by (cases "idb_request_error E") simp_all
  with a obtain store where s: "sessionKeyStore upgradeDb = Some store"
    by (cases "sessionKeyStore upgradeDb") simp_all
  from a r s have "stored = True"
    "st' = upgradeDb\<lparr>sessionKeyStore := Some (store(''sessionKey-'' @ c \<mapsto>
             \<lparr>kd_key = exported, kd_timestamp = orNow ts now,
              kd_expiresAt = orNow ts now + SESSION_KEY_EXPIRY\<rparr>))\<rparr>"
    by simp_all
  with o1 o2 x r s that show thesis by blast
qed

lemma storeSessionKey_InrD:
  assumes "storeSessionKey E now st c k ts = (Inr stored, st')"
  shows "stored = True \<and>
         map_option (\<lambda>d. Inr (kd_key d)) (storedEntry st' c) = Some (exportKey_raw E k) \<and>
         map_option kd_timestamp (storedEntry st' c) = Some (orNow ts now) \<and>
         map_option kd_expiresAt (storedEntry st' c) = Some (orNow ts now + SESSION_KEY_EXPIRY) \<and>
         idb_open_error E = None \<and> idb_request_error E = None \<and>
         dbVersion st \<le> 2 \<and> 2 \<le> dbVersion st' \<and> dbVersion st' \<le> 3 \<and>
         kx_seenNonces st' = kx_seenNonces st"
proof -
  from assms obtain db upgradeDb exported store where
    o1: "indexedDB_open E 2 True st = Inr db"
    and o2: "(if sessionKeyStore db = None then indexedDB_open E 3 True db else Inr db) = Inr upgradeDb"
    and x: "exportKey_raw E k = Inr exported"
    and r: "idb_request_error E = None"
    and "sessionKeyStore upgradeDb = Some store"
    and s: "stored = True"
    and st': "st' = upgradeDb\<lparr>sessionKeyStore := Some (store(''sessionKey-'' @ c \<mapsto>
             \<lparr>kd_key = exported, kd_timestamp = orNow ts now,
              kd_expiresAt = orNow ts now + SESSION_KEY_EXPIRY\<rparr>))\<rparr>"
    by (rule storeSessionKey_InrE)
  from o1 have e: "idb_open_error E = None" and v: "dbVersion st \<le> 2" and v1: "dbVersion db = 2"
    and n1: "kx_seenNonces db = kx_seenNonces st"
    by (auto simp: indexedDB_open_Inr_iff split: if_splits)
  from o2 v1 have v2: "dbVersion upgradeDb = 2 \<or> dbVersion upgradeDb = 3"
    and n2: "kx_seenNonces upgradeDb = kx_seenNonces db"
    by (auto simp: indexedDB_open_Inr_iff split: if_splits)
  from v2 have "2 \<le> dbVersion st'" "dbVersion st' \<le> 3" by (auto simp: st')
  moreover have "map_option (\<lambda>d. Inr (kd_key d)) (storedEntry st' c) = Some (exportKey_raw E k)"
    "map_option kd_timestamp (storedEntry st' c) = Some (orNow ts now)"
    "map_option kd_expiresAt (storedEntry st' c) = Some (orNow ts now + SESSION_KEY_EXPIRY)"
    by (simp_all add: st' storedEntry_def x)
  moreover have "kx_seenNonces st' = kx_seenNonces st" by (simp add: st' n1 n2)
  ultimately show ?thesis using s e r v by simp
qed

lemma storeSessionKey_seenNonces:
  "kx_seenNonces (snd (storeSessionKey E now st c k ts)) = kx_seenNonces st"
proof -
  have three: "(2::nat) + 1 = 3" by simp
  note d = storeSessionKey_def Let_def three
  show ?thesis
  proof (cases "indexedDB_open E 2 True st")
    case (Inl m)
    then show ?thesis unfolding d by simp
  next
    case (Inr db)
    then have n1: "kx_seenNonces db = kx_seenNonces st"
      by (auto simp: indexedDB_open_Inr_iff split: if_splits)
    show ?thesis
    proof (cases "if sessionKeyStore db = None then indexedDB_open E 3 True db else Inr db")
      case (Inl m)
      with Inr n1 show ?thesis unfolding d by simp
    next
      case up: (Inr upgradeDb)
      then have n2: "kx_seenNonces upgradeDb = kx_seenNonces db"
        by (auto simp: indexedDB_open_Inr_iff split: if_splits)
      from Inr up n1 n2 show ?thesis unfolding d
        by (simp split: option.splits sum.splits)
    qed
  qed
qed

lemma storeSessionKey_accepts:
  assumes "dbAccepts E st" and "exportable E k"
  shows "fst (storeSessionKey E now st c k ts) = Inr True"
proof -
  have three: "(2::nat) + 1 = 3" by simp
  note d = storeSessionKey_def Let_def three
  from assms have e: "idb_open_error E = None" and r: "idb_request_error E = None"
    and v: "dbVersion st \<le> 2"
    by (simp_all add: dbAccepts_def)
  define db where "db = (if dbVersion st < 2
           then st\<lparr>dbVersion := 2,
                   sessionKeyStore := (if sessionKeyStore st = None then Some Map.empty
                                       else sessionKeyStore st)\<rparr>
           else st)"
  have o1: "indexedDB_open E 2 True st = Inr db"
    using e v by (simp add: indexedDB_open_Inr_iff db_def)
  have v1: "dbVersion db = 2" using v by (auto simp: db_def)
  define upgradeDb where "upgradeDb = (if sessionKeyStore db = None
           then db\<lparr>dbVersion := 3, sessionKeyStore := Some Map.empty\<rparr> else db)"
  have o2: "(if sessionKeyStore db = None then indexedDB_open E 3 True db else Inr db) = Inr upgradeDb"
    using e v1 by (simp add: indexedDB_open_Inr_iff upgradeDb_def)
  obtain store where s: "sessionKeyStore upgradeDb = Some store"
    by (cases "sessionKeyStore db") (auto simp: upgradeDb_def)
  from assms(2) obtain exported where x: "exportKey_raw E k = Inr exported"
    by (cases "exportKey_raw E k") (simp_all add: exportable_def)
  show ?thesis
    unfolding d using o1 o2 r s x by simp
qed

lemma storeSessionKey_exportable:
  assumes "storeSessionKey E now st c k ts = (Inr stored, st')"
  shows "exportable E k"
  using assms by (rule storeSessionKey_InrE) (simp add: exportable_def)

lemma storeThenReturn_accepts:
  assumes "dbAccepts E st" and "exportable E k"
  shows "fst (storeThenReturn E now st c k ts) = Inr k \<and>
         map_option (\<lambda>d. Inr (kd_key d)) (storedEntry (snd (storeThenReturn E now st c k ts)) c)
           = Some (exportKey_raw E k)"
proof -
  obtain r st' where s: "storeSessionKey E now st c k ts = (r, st')"
    by (cases "storeSessionKey E now st c k ts")
  with storeSessionKey_accepts [OF assms, of now c ts] have r: "r = Inr True" by simp
  from storeSessionKey_InrD [OF s [unfolded r]]
  have "map_option (\<lambda>d. Inr (kd_key d)) (storedEntry st' c) = Some (exportKey_raw E k)"
    by simp
  then show ?thesis
    by (simp add: storeThenReturn_def s r)
qed

text \<open>
  Where the database still opens at version 2 after the store, the expiry is as the
  specification words it: the stored key up to and including creation time plus
  \<open>SESSION_KEY_EXPIRY\<close>, \<open>null\<close> and the entry deleted after it. This is the case when the
  store found the \<open>sessionKeys\<close> store in place or created it in its own upgrade, and not
  when it had to reopen the database at version 3.
\<close>

lemma retrieveSessionKey_after_store:
  assumes "storeSessionKey E now0 st c k ts = (Inr stored, st1)"
    and "dbVersion st1 \<le> 2"
    and "\<And>exported. exportKey_raw E k = Inr exported \<Longrightarrow> importKey_raw E exported = Inr k"
    and "0 \<le> orNow ts now0"
  shows "(orNow ts now0 + SESSION_KEY_EXPIRY < now \<longrightarrow>
           fst (retrieveSessionKey E now st1 c) = Inr None \<and>
           storedEntry (snd (retrieveSessionKey E now st1 c)) c = None) \<and>
         (now \<le> orNow ts now0 + SESSION_KEY_EXPIRY \<longrightarrow>
           retrieveSessionKey E now st1 c = (Inr (Some k), st1))"
proof -
  from storeSessionKey_InrD [OF assms(1)]
  have e: "map_option (\<lambda>d. Inr (kd_key d)) (storedEntry st1 c) = Some (exportKey_raw E k)"
    "map_option kd_expiresAt (storedEntry st1 c) = Some (orNow ts now0 + SESSION_KEY_EXPIRY)"
    and f: "idb_open_error E = None" "idb_request_error E = None" and v: "2 \<le> dbVersion st1"
    by simp_all
  from v assms(2) have v2: "dbVersion st1 = 2" by simp
  have op: "indexedDB_open E 2 False st1 = Inr st1"
    by (simp add: indexedDB_open_def f v2)
  from e obtain store d where st: "sessionKeyStore st1 = Some store"
    and en: "store (''sessionKey-'' @ c) = Some d"
    and d: "exportKey_raw E k = Inr (kd_key d)" "kd_expiresAt d = orNow ts now0 + SESSION_KEY_EXPIRY"
    by (auto simp: storedEntry_def split: option.splits)
  from assms(3) d(1) have i: "importKey_raw E (kd_key d) = Inr k" by simp
  show ?thesis
    using assms(4) en d(2) i
    by (auto simp: retrieveSessionKey_def op st f storedEntry_def SESSION_KEY_EXPIRY_def)
qed

lemma retrieveSessionKey_version_error:
  assumes "idb_open_error E = None" and "2 < dbVersion st"
  shows "retrieveSessionKey E now st c = (Inl ''VersionError'', st)"
  using assms by (simp add: retrieveSessionKey_def indexedDB_open_def)

lemma storeSessionKey_version_error:
  assumes "idb_open_error E = None" and "2 < dbVersion st"
  shows "storeSessionKey E now st c k ts = (Inl ''VersionError'', st)"
  using assms by (simp add: storeSessionKey_def indexedDB_open_def)


section \<open>Properties of the handshake\<close>

subsection \<open>What the two sides compute\<close>

lemma sort2_commute: "sort2 a b = sort2 b a"
  by (auto simp: sort2_def)

lemma createKeyExchangeResponse_InrD:
  assumes "createKeyExchangeResponse E now rnd st myPub theirPub myPriv senderId sk receiverId conv
             = (Inr out, st')"
  shows "\<exists>sharedSecret sg.
           deriveSharedSecret E myPriv theirPub = Inr sharedSecret \<and>
           deriveSessionKeySHA256 E sharedSecret (sort2 senderId receiverId ! 0)
             (sort2 senderId receiverId ! 1) (Some now) = Inr (res_sessionKey out) \<and>
           signData E sk (stringify E ((res_response out)\<lparr>msg_signature := None\<rparr>)) = Inr sg \<and>
           res_response out =
             \<lparr>msg_type = Some ''KEY_EXCHANGE_RESPONSE'', msg_senderId = Some receiverId,
              msg_receiverId = Some senderId, msg_conversationId = conv,
              msg_ecdhPublicKey = Some (exportECDHPublicKey E myPub),
              msg_timestamp = Some now, msg_nonce = Some (generateNonce E rnd),
              msg_confirmationHash = Some (confirmationTag E receiverId senderId now),
              msg_deviceInfo = Some (if userAgent E = [] then ''Unknown'' else userAgent E),
              msg_appVersion = Some ''1.0.0'', msg_signature = Some (btoa E sg)\<rparr> \<and>
           res_timestamp out = now \<and>
           storeSessionKey E now st
               (if truthy_str conv then template conv else senderId @ ''_'' @ receiverId)
               (res_sessionKey out) (Some now) = (Inr True, st')"
proof -
  have main: "\<exists>sharedSecret sg stored.
           deriveSharedSecret E myPriv theirPub = Inr sharedSecret \<and>
           deriveSessionKeySHA256 E sharedSecret (sort2 senderId receiverId ! 0)
             (sort2 senderId receiverId ! 1) (Some now) = Inr (res_sessionKey out) \<and>
           signData E sk (stringify E ((res_response out)\<lparr>msg_signature := None\<rparr>)) = Inr sg \<and>
           res_response out =
             \<lparr>msg_type = Some ''KEY_EXCHANGE_RESPONSE'', msg_senderId = Some receiverId,
              msg_receiverId = Some senderId, msg_conversationId = conv,
              msg_ecdhPublicKey = Some (exportECDHPublicKey E myPub),
              msg_timestamp = Some now, msg_nonce = Some (generateNonce E rnd),
              msg_confirmationHash = Some (confirmationTag E receiverId senderId now),
              msg_deviceInfo = Some (if userAgent E = [] then ''Unknown'' else userAgent E),
              msg_appVersion = Some ''1.0.0'', msg_signature = Some (btoa E sg)\<rparr> \<and>
           res_timestamp out = now \<and>
           storeSessionKey E now st
               (if truthy_str conv then template conv else senderId @ ''_'' @ receiverId)
               (res_sessionKey out) (Some now) = (Inr stored, st')"
    using assms
    by (auto simp: createKeyExchangeResponse_def confirmationTag_def Let_def
        split: sum.splits prod.splits)
  then obtain sharedSecret sg stored where
    f: "deriveSharedSecret E myPriv theirPub = Inr sharedSecret"
      "deriveSessionKeySHA256 E sharedSecret (sort2 senderId receiverId ! 0)
             (sort2 senderId receiverId ! 1) (Some now) = Inr (res_sessionKey out)"
      "signData E sk (stringify E ((res_response out)\<lparr>msg_signature := None\<rparr>)) = Inr sg"
      "res_response out =
             \<lparr>msg_type = Some ''KEY_EXCHANGE_RESPONSE'', msg_senderId = Some receiverId,
              msg_receiverId = Some senderId, msg_conversationId = conv,
              msg_ecdhPublicKey = Some (exportECDHPublicKey E myPub),
              msg_timestamp = Some now, msg_nonce = Some (generateNonce E rnd),
              msg_confirmationHash = Some (confirmationTag E receiverId senderId now),
              msg_deviceInfo = Some (if userAgent E = [] then ''Unknown'' else userAgent E),
              msg_appVersion = Some ''1.0.0'', msg_signature = Some (btoa E sg)\<rparr>"
      "res_timestamp out = now"
    and stored: "storeSessionKey E now st
               (if truthy_str conv then template conv else senderId @ ''_'' @ receiverId)
               (res_sessionKey out) (Some now) = (Inr stored, st')"
    by blast
  from storeSessionKey_InrD [OF stored] have "stored = True" by simp
  with stored have "storeSessionKey E now st
               (if truthy_str conv then template conv else senderId @ ''_'' @ receiverId)
               (res_sessionKey out) (Some now) = (Inr True, st')"
    by simp
  with f show ?thesis by blast
qed

lemma createKeyExchangeResponse_Inr:
  assumes "deriveSharedSecret E myPriv theirPub = Inr sharedSecret"
    and "deriveSessionKeySHA256 E sharedSecret (sort2 senderId receiverId ! 0)
           (sort2 senderId receiverId ! 1) (Some now) = Inr sessionKey"
    and "responseData =
           \<lparr>msg_type = Some ''KEY_EXCHANGE_RESPONSE'', msg_senderId = Some receiverId,
            msg_receiverId = Some senderId, msg_conversationId = conv,
            msg_ecdhPublicKey = Some (exportECDHPublicKey E myPub),
            msg_timestamp = Some now, msg_nonce = Some (generateNonce E rnd),
            msg_confirmationHash = Some (confirmationTag E receiverId senderId now),
            msg_deviceInfo = Some (if userAgent E = [] then ''Unknown'' else userAgent E),
            msg_appVersion = Some ''1.0.0'', msg_signature = None\<rparr>"
    and "signData E sk (stringify E responseData) = Inr sg"
    and "storeSessionKey E now st
           (if truthy_str conv then template conv else senderId @ ''_'' @ receiverId)
           sessionKey (Some now) = (Inr stored, st')"
  shows "createKeyExchangeResponse E now rnd st myPub theirPub myPriv senderId sk receiverId conv
           = (Inr \<lparr>res_response = responseData\<lparr>msg_signature := Some (btoa E sg)\<rparr>,
                   res_sessionKey = sessionKey, res_timestamp = now\<rparr>, st')"
  using assms by (simp add: createKeyExchangeResponse_def confirmationTag_def Let_def)

lemma completeKeyExchange_InrD:
  assumes "fst (completeKeyExchange E now st m priv pk myId theirId c) = Inr key"
  shows "\<exists>t. msg_timestamp m = Some t \<and>
             msg_confirmationHash m = Some (confirmationTag E theirId myId t)"
  using assms
  by (auto simp: completeKeyExchange_def confirmationTag_def deriveSessionKeySHA256_def Let_def
      split: if_splits sum.splits option.splits prod.splits)

lemma completeKeyExchange_at_confirmation:
  assumes "reachesConfirmation E now st m priv pk myId theirId key"
  shows "\<exists>t. msg_timestamp m = Some t \<and>
           completeKeyExchange E now st m priv pk myId theirId c =
             (if msg_confirmationHash m \<noteq> Some (confirmationTag E theirId myId t)
              then (Inl ''Failed to complete key exchange: Confirmation hash mismatch'',
                    st\<lparr>kx_seenNonces := insert (msg_nonce m) (kx_seenNonces st)\<rparr>)
              else storeThenReturn E now
                     (st\<lparr>kx_seenNonces := insert (msg_nonce m) (kx_seenNonces st)\<rparr>)
                     c key (Some t))"
proof -
  from assms obtain t where t: "msg_timestamp m = Some t"
    by (cases "msg_timestamp m")
      (auto simp: reachesConfirmation_def deriveSessionKeySHA256_def split: sum.splits)
  from assms t show ?thesis
    by (auto simp: reachesConfirmation_def completeKeyExchange_def confirmationTag_def
        storeThenReturn_def Let_def split: sum.splits)
qed

subsection \<open>Key agreement\<close>

text \<open>
  C1: the responder has produced a Response (\<open>createKeyExchangeResponse\<close> returned
  \<open>out\<close>), and the initiator consumes it unmodified: ECDH agrees for the two ephemeral
  key pairs, the responder's public key and signature survive the Base64 transport, the
  signature verifies under the responder's public key, the initiator's clock is within
  the tolerance of the Response's timestamp and the nonce is new to the initiator. Then
  the initiator derives exactly the session key the responder derived: \<open>completeKeyExchange\<close>
  passes every check and hands that key, with the Response's timestamp, to
  \<open>storeSessionKey\<close>, so its outcome is that of \<open>storeThenReturn\<close> on the responder's key.
  Where the initiator's database accepts the write, \<open>completeKeyExchange\<close> returns the
  responder's key and the initiator has stored the same key bytes as the responder, who has
  stored them whenever a Response was produced. Both sides sort the two ids, use the
  timestamp carried in the Response and apply \<open>deriveSessionKeySHA256\<close> to the same secret.
\<close>

theorem C1_session_keys_agree:
  assumes resp: "createKeyExchangeResponse E nowB rnd stB pubB pubA privB initiatorId skB responderId
             convB = (Inr out, stB')"
    and dh: "deriveBits E privA pubB = deriveBits E privB pubA"
    and key: "importECDHPublicKey E (Some (exportECDHPublicKey E pubB)) = Inr pubB"
    and sg: "signData E skB (stringify E ((res_response out)\<lparr>msg_signature := None\<rparr>)) = Inr sg"
    and enc: "btoa E sg \<noteq> []" "atob E (btoa E sg) = Inr sg"
    and ver: "verifySignature E pkB sg (stringify E ((res_response out)\<lparr>msg_signature := None\<rparr>))"
    and time: "\<bar>nowA - nowB\<bar> \<le> TIMESTAMP_TOLERANCE"
    and fresh: "msg_nonce (res_response out) \<notin> kx_seenNonces stA"
  shows "completeKeyExchange E nowA stA (res_response out) privA pkB initiatorId responderId convA
           = storeThenReturn E nowA
               (stA\<lparr>kx_seenNonces := insert (msg_nonce (res_response out)) (kx_seenNonces stA)\<rparr>)
               convA (res_sessionKey out) (Some nowB) \<and>
         (dbAccepts E stA \<longrightarrow>
            fst (completeKeyExchange E nowA stA (res_response out) privA pkB initiatorId responderId
                  convA) = Inr (res_sessionKey out) \<and>
            map_option (\<lambda>d. Inr (kd_key d)) (storedEntry (snd (completeKeyExchange E nowA stA
                  (res_response out) privA pkB initiatorId responderId convA)) convA)
              = Some (exportKey_raw E (res_sessionKey out))) \<and>
         map_option (\<lambda>d. Inr (kd_key d)) (storedEntry stB'
                (if truthy_str convB then template convB else initiatorId @ ''_'' @ responderId))
           = Some (exportKey_raw E (res_sessionKey out))"
proof -
  from createKeyExchangeResponse_InrD [OF resp]
  obtain sharedSecret sg' where
    sec: "deriveSharedSecret E privB pubA = Inr sharedSecret"
    and der: "deriveSessionKeySHA256 E sharedSecret (sort2 initiatorId responderId ! 0)
             (sort2 initiatorId responderId ! 1) (Some nowB) = Inr (res_sessionKey out)"
    and sg': "signData E skB (stringify E ((res_response out)\<lparr>msg_signature := None\<rparr>)) = Inr sg'"
    and out: "res_response out =
             \<lparr>msg_type = Some ''KEY_EXCHANGE_RESPONSE'', msg_senderId = Some responderId,
              msg_receiverId = Some initiatorId, msg_conversationId = convB,
              msg_ecdhPublicKey = Some (exportECDHPublicKey E pubB),
              msg_timestamp = Some nowB, msg_nonce = Some (generateNonce E rnd),
              msg_confirmationHash = Some (confirmationTag E responderId initiatorId nowB),
              msg_deviceInfo = Some (if userAgent E = [] then ''Unknown'' else userAgent E),
              msg_appVersion = Some ''1.0.0'', msg_signature = Some (btoa E sg')\<rparr>"
    and stB': "storeSessionKey E nowB stB
                   (if truthy_str convB then template convB else initiatorId @ ''_'' @ responderId)
                   (res_sessionKey out) (Some nowB) = (Inr True, stB')"
    by blast
  have same: "sg' = sg" using sg sg' by simp
  have fields: "msg_signature (res_response out) = Some (btoa E sg)"
    "msg_timestamp (res_response out) = Some nowB"
    "msg_ecdhPublicKey (res_response out) = Some (exportECDHPublicKey E pubB)"
    "msg_confirmationHash (res_response out) = Some (confirmationTag E responderId initiatorId nowB)"
    by (simp_all add: out same)
  have secA: "deriveSharedSecret E privA pubB = Inr sharedSecret"
    using sec dh by (simp add: deriveSharedSecret_def)
  have reach: "reachesConfirmation E nowA stA (res_response out) privA pkB initiatorId responderId
      (res_sessionKey out)"
    unfolding reachesConfirmation_def
    using enc ver time fresh key secA der
    by (simp add: fields truthy_str_def template_def outOfTolerance_def
        sort2_commute [of responderId initiatorId])
  from completeKeyExchange_at_confirmation [OF reach, of convA]
  have cke: "completeKeyExchange E nowA stA (res_response out) privA pkB initiatorId responderId convA
           = storeThenReturn E nowA
               (stA\<lparr>kx_seenNonces := insert (msg_nonce (res_response out)) (kx_seenNonces stA)\<rparr>)
               convA (res_sessionKey out) (Some nowB)"
    by (simp add: fields)
  have ex: "exportable E (res_sessionKey out)"
    using stB' by (rule storeSessionKey_exportable)
  have initiator: "fst (storeThenReturn E nowA
               (stA\<lparr>kx_seenNonces := insert (msg_nonce (res_response out)) (kx_seenNonces stA)\<rparr>)
               convA (res_sessionKey out) (Some nowB)) = Inr (res_sessionKey out) \<and>
         map_option (\<lambda>d. Inr (kd_key d)) (storedEntry (snd (storeThenReturn E nowA
               (stA\<lparr>kx_seenNonces := insert (msg_nonce (res_response out)) (kx_seenNonces stA)\<rparr>)
               convA (res_sessionKey out) (Some nowB))) convA)
           = Some (exportKey_raw E (res_sessionKey out))"
    if "dbAccepts E stA"
    using that ex by (intro storeThenReturn_accepts) (simp_all add: dbAccepts_def)
  from storeSessionKey_InrD [OF stB']
  have responder: "map_option (\<lambda>d. Inr (kd_key d)) (storedEntry stB'
                (if truthy_str convB then template convB else initiatorId @ ''_'' @ responderId))
           = Some (exportKey_raw E (res_sessionKey out))"
    by simp
  from initiator responder show ?thesis
    unfolding cke by blast
qed

subsection \<open>Signature check\<close>

text \<open>
  C2: the envelope carries a signature that decodes to \<open>sg\<close>, and \<open>sg\<close> verifies under
  the sender's public key for the content \<open>covered\<close> only. When the serialization of the
  envelope's signed fields differs from \<open>covered\<close> (the ephemeral public key, or any other
  signed field, was changed), \<open>validateKeyExchangeInit\<close> returns
  \<open>{ valid: false, error: "Invalid signature" }\<close> and changes nothing, and
  \<open>handleKeyExchangeMessage\<close> returns false with the session-key store, the seen nonces
  and the hook's session keys as they were. The same envelope handed to
  \<open>completeKeyExchange\<close> as a Response is refused with "Invalid signature in response",
  again with nothing stored.
\<close>

theorem C2_tampered_envelope_rejected:
  assumes "msg_signature message = Some signatureBase64" and "signatureBase64 \<noteq> []"
    and "atob E signatureBase64 = Inr sg"
    and "\<forall>d. verifySignature E senderPublicKeyBase64 sg d \<longrightarrow> d = covered"
    and "stringify E (message\<lparr>msg_signature := None\<rparr>) \<noteq> covered"
  shows "validateKeyExchangeInit E now st message senderPublicKeyBase64
           = (InvalidInit ''Invalid signature'', st) \<and>
         fst (handleKeyExchangeMessage E now now' rnd keyPair serverOk serverError hk st message
                senderId senderPublicKeyBase64 conversationId) = False \<and>
         snd (snd (handleKeyExchangeMessage E now now' rnd keyPair serverOk serverError hk st message
                senderId senderPublicKeyBase64 conversationId)) = st \<and>
         sessionKeys (fst (snd (handleKeyExchangeMessage E now now' rnd keyPair serverOk serverError
                hk st message senderId senderPublicKeyBase64 conversationId))) = sessionKeys hk \<and>
         completeKeyExchange E now st message myECDHPrivateKey senderPublicKeyBase64 myId theirId
             convId
           = (Inl ''Failed to complete key exchange: Invalid signature in response'', st)"
proof -
  have nv: "\<not> verifySignature E senderPublicKeyBase64 sg (stringify E (message\<lparr>msg_signature := None\<rparr>))"
    using assms(4,5) by blast
  have v: "validateKeyExchangeInit E now st message senderPublicKeyBase64
           = (InvalidInit ''Invalid signature'', st)"
    using assms(1-3) nv
    by (simp add: validateKeyExchangeInit_def truthy_str_def template_def Let_def)
  have c: "completeKeyExchange E now st message myECDHPrivateKey senderPublicKeyBase64 myId theirId
             convId
           = (Inl ''Failed to complete key exchange: Invalid signature in response'', st)"
    using assms(1-3) nv
    by (simp add: completeKeyExchange_def truthy_str_def template_def Let_def)
  show ?thesis
    by (simp add: v c handleKeyExchangeMessage_def Let_def)
qed

subsection \<open>Confirmation tag\<close>

text \<open>
  C4 (as the code has it): the tag carried in a Response is the Base64 form of the
  SHA-256 digest of \<open>KEY_CONFIRMED_<responder>_<initiator>_<timestamp>\<close>, the responder's
  id first and the initiator's second, over the Response's own timestamp; the ids are not
  sorted. \<open>completeKeyExchange\<close> succeeds only on a Response whose tag equals the same
  formula with \<open>theirId\<close> (the responder) first and \<open>myId\<close> (the initiator) second. The
  tag coincides with the sorted-pair formula when the responder's id is not above the
  initiator's.
\<close>

theorem C4_confirmation_tag_responder_first:
  "(createKeyExchangeResponse E now rnd st myPub theirPub myPriv senderId sk receiverId conv
      = (Inr out, st') \<longrightarrow>
    msg_timestamp (res_response out) = Some now \<and>
    msg_confirmationHash (res_response out) = Some (confirmationTag E receiverId senderId now)) \<and>
   (fst (completeKeyExchange E now2 st2 responseMessage priv pk myId theirId conv2) = Inr key \<longrightarrow>
    (\<exists>t. msg_timestamp responseMessage = Some t \<and>
         msg_confirmationHash responseMessage = Some (confirmationTag E theirId myId t))) \<and>
   (receiverId \<le> senderId \<longrightarrow>
    confirmationTag E receiverId senderId now = specConfirmationTag E senderId receiverId now)"
proof (intro conjI impI)
  assume "createKeyExchangeResponse E now rnd st myPub theirPub myPriv senderId sk receiverId conv
      = (Inr out, st')"
  from createKeyExchangeResponse_InrD [OF this]
  show "msg_timestamp (res_response out) = Some now"
    and "msg_confirmationHash (res_response out) = Some (confirmationTag E receiverId senderId now)"
    by auto
next
  assume "fst (completeKeyExchange E now2 st2 responseMessage priv pk myId theirId conv2) = Inr key"
  then show "\<exists>t. msg_timestamp responseMessage = Some t \<and>
         msg_confirmationHash responseMessage = Some (confirmationTag E theirId myId t)"
    by (rule completeKeyExchange_InrD)
next
  assume "receiverId \<le> senderId"
  then show "confirmationTag E receiverId senderId now = specConfirmationTag E senderId receiverId now"
    by (auto simp: specConfirmationTag_def sort2_def Let_def)
qed

text \<open>
  C8: when \<open>completeKeyExchange\<close> reaches the comparison and the received tag differs
  from the one it recomputes, it throws "Failed to complete key exchange: Confirmation
  hash mismatch" and the session-key store is what it was before the call: the database
  has not been opened, so its version and its entries are unchanged.
\<close>

theorem C8_confirmation_mismatch_aborts:
  assumes "reachesConfirmation E now st responseMessage myECDHPrivateKey theirPublicKeyBase64
             myId theirId sessionKey"
    and "msg_timestamp responseMessage = Some t"
    and "msg_confirmationHash responseMessage \<noteq> Some (confirmationTag E theirId myId t)"
  shows "fst (completeKeyExchange E now st responseMessage myECDHPrivateKey theirPublicKeyBase64
                myId theirId conversationId)
           = Inl ''Failed to complete key exchange: Confirmation hash mismatch'' \<and>
         sessionKeyStore (snd (completeKeyExchange E now st responseMessage myECDHPrivateKey
                theirPublicKeyBase64 myId theirId conversationId))
           = sessionKeyStore st \<and>
         dbVersion (snd (completeKeyExchange E now st responseMessage myECDHPrivateKey
                theirPublicKeyBase64 myId theirId conversationId))
           = dbVersion st"
  using completeKeyExchange_at_confirmation [OF assms(1), of conversationId] assms(2,3)
  by auto



section \<open>The handshake evaluated\<close>

subsection \<open>Base64 decodes what it encodes\<close>

lemma of_char_lt_256: "(of_char c :: nat) < 256"
  by (metis of_char_mod_256 mod_less_divisor zero_less_numeral)

lemma b64index_b64char: "i < 64 \<Longrightarrow> b64index (b64char i) = Some i"
  by (auto simp: b64index_def b64char_def Let_def)

lemma b64char_not_pad: "b64char i \<noteq> CHR ''=''"
  by (auto simp: b64char_def char_of_eq_iff take_bit_eq_mod)

lemma base64_Nil_iff: "base64 s = [] \<longleftrightarrow> s = []"
  by (induction s rule: base64.induct) (auto simp: base64.simps Let_def)

lemma b64_first: "y < 256 \<Longrightarrow> x div 4 * 4 + (x mod 4 * 16 + y div 16) div 16 = (x::nat)"
  by (simp add: div_eq_0_iff)

lemma b64_second_a: "z < 256 \<Longrightarrow> (y mod 16 * 4 + z div 64) div 4 = (y mod 16 :: nat)"
  by (simp add: div_eq_0_iff)

lemma b64_second_b: "(x mod 4 * 16 + y div 16) mod 16 = (y div 16 mod 16 :: nat)"
  by simp

lemma b64_second:
  "y < 256 \<Longrightarrow> z < 256 \<Longrightarrow>
   (x mod 4 * 16 + y div 16) mod 16 * 16 + (y mod 16 * 4 + z div 64) div 4 = (y::nat)"
  by (simp add: b64_second_a div_eq_0_iff)

lemma b64_third_a: "(y mod 16 * 4 + z div 64) mod 4 = (z div 64 mod 4 :: nat)"
  by simp

lemma b64_third: "z < 256 \<Longrightarrow> (y mod 16 * 4 + z div 64) mod 4 * 64 + z mod 64 = (z::nat)"
  by (simp add: div_eq_0_iff)

lemma b64_bounds:
  "x < 256 \<Longrightarrow> x div 4 < (64::nat)"
  "y < 256 \<Longrightarrow> x mod 4 * 16 + y div 16 < (64::nat)"
  "z < 256 \<Longrightarrow> y mod 16 * 4 + z div 64 < (64::nat)"
  "z mod 64 < (64::nat)"
  "x mod 4 * 16 < (64::nat)"
  "y mod 16 * 4 < (64::nat)"
  by arith+


lemma unbase64_base64: "unbase64 (base64 s) = Inr s"
proof (induction s rule: base64.induct)
  case (1 a b c r)
  define x y z :: nat where "x = of_char a" and "y = of_char b" and "z = of_char c"
  have lt: "x < 256" "y < 256" "z < 256"
    by (simp_all add: x_def y_def z_def of_char_lt_256)
  have chars: "char_of x = a" "char_of y = b" "char_of z = c"
    by (simp_all add: x_def y_def z_def)
  have enc: "base64 (a # b # c # r) =
      b64char (x div 4) # b64char (x mod 4 * 16 + y div 16)
        # b64char (y mod 16 * 4 + z div 64) # b64char (z mod 64) # base64 r"
    by (simp add: base64.simps Let_def x_def y_def z_def)
  show ?case
    unfolding enc
    using lt 1
    by (simp add: unbase64.simps b64index_b64char b64_bounds b64char_not_pad b64_first b64_second b64_third chars)
next
  case (2 a b)
  define x y :: nat where "x = of_char a" and "y = of_char b"
  have lt: "x < 256" "y < 256"
    by (simp_all add: x_def y_def of_char_lt_256)
  have chars: "char_of x = a" "char_of y = b"
    by (simp_all add: x_def y_def)
  have enc: "base64 [a, b] =
      [b64char (x div 4), b64char (x mod 4 * 16 + y div 16), b64char (y mod 16 * 4), CHR ''='']"
    by (simp add: base64.simps Let_def x_def y_def)
  have snd: "(x mod 4 * 16 + y div 16) mod 16 * 16 + y mod 16 * 4 div 4 = y"
    using b64_second [of y 0 x] lt by simp
  show ?case
    unfolding enc
    using lt
    by (simp add: unbase64.simps b64index_b64char b64_bounds b64char_not_pad b64_first snd chars)
next
  case (3 a)
  define x :: nat where "x = of_char a"
  have lt: "x < 256"
    by (simp add: x_def of_char_lt_256)
  have chars: "char_of x = a"
    by (simp add: x_def)
  have enc: "base64 [a] = [b64char (x div 4), b64char (x mod 4 * 16), CHR ''='', CHR ''='']"
    by (simp add: base64.simps Let_def x_def)
  have fst: "x div 4 * 4 + x mod 4 * 16 div 16 = x"
    using b64_first [of 0 x] by simp
  show ?case
    unfolding enc
    using lt
    by (simp add: unbase64.simps b64index_b64char b64_bounds b64char_not_pad fst chars)
next
  case 4
  then show ?case by (simp add: base64.simps unbase64.simps)
qed

lemma base64_not_Nil: "s \<noteq> [] \<Longrightarrow> base64 s \<noteq> []"
  by (simp add: base64_Nil_iff)

subsection \<open>SHA-256 of the four messages of the handshake\<close>

text \<open>
  The two confirmation strings (responder first, and sorted) and the two inputs of the
  key derivation, as bytes, with their digests.
\<close>

lemma replicate_numeral_Cons: "replicate (numeral k) x = x # replicate (pred_numeral k) x"
  by (simp add: numeral_eq_Suc)

lemmas sha256_eval = sha256_bytes_def pad_def len_def be_bytes4_def compress_def K256_def H256_def
  rotr_def Ch_def Maj_def bsig0_def bsig1_def ssig0_def ssig1_def add32_def Let_def
  replicate_numeral_Cons

lemma sha256_tag_bob_alice:
  "sha256_bytes
     [75, 69, 89, 95, 67, 79, 78, 70, 73, 82, 77, 69, 68, 95, 98, 111, 98, 95, 97, 108,
      105, 99, 101, 95, 49, 55, 48, 48, 48, 48, 48, 48, 48, 49, 48, 48, 48]
   = [17, 208, 26, 4, 36, 139, 181, 173, 83, 192, 0, 165, 195, 77, 165, 165, 249, 227,
      49, 176, 100, 178, 36, 59, 70, 180, 55, 250, 216, 16, 188, 59]"
  by (simp add: sha256_eval)

lemma sha256_tag_alice_bob:
  "sha256_bytes
     [75, 69, 89, 95, 67, 79, 78, 70, 73, 82, 77, 69, 68, 95, 97, 108, 105, 99, 101,
      95, 98, 111, 98, 95, 49, 55, 48, 48, 48, 48, 48, 48, 48, 49, 48, 48, 48]
   = [41, 84, 118, 200, 63, 29, 228, 230, 142, 227, 196, 61, 240, 176, 6, 32, 82, 1,
      142, 204, 100, 126, 184, 30, 206, 91, 24, 85, 82, 112, 183, 251]"
  by (simp add: sha256_eval)

lemma sha256_key_secret2:
  "sha256_bytes
     [2, 97, 108, 105, 99, 101, 98, 111, 98, 49, 55, 48, 48, 48, 48, 48, 48, 48, 49,
      48, 48, 48]
   = [60, 167, 102, 163, 107, 245, 44, 60, 126, 178, 72, 31, 176, 47, 57, 2, 91, 186,
      121, 110, 139, 225, 181, 192, 190, 55, 94, 230, 210, 21, 129, 180]"
  by (simp add: sha256_eval)

lemma sha256_key_secret18:
  "sha256_bytes
     [18, 97, 108, 105, 99, 101, 98, 111, 98, 49, 55, 48, 48, 48, 48, 48, 48, 48, 49,
      48, 48, 48]
   = [144, 242, 154, 24, 74, 214, 109, 97, 38, 31, 223, 194, 246, 116, 16, 81, 179,
      161, 92, 151, 218, 73, 101, 232, 66, 250, 173, 29, 101, 223, 173, 4]"
  by (simp add: sha256_eval)

subsection \<open>The pieces of the two runs\<close>

lemmas demo_eval = demoBrowser_def demoSign_def demoVerify_def demoDeriveBits_def
  demoImportSpki_def demoPublic_def deriveSharedSecret_def signData_def verifySignature_def
  exportECDHPublicKey_def importECDHPublicKey_def generateNonce_def truthy_str_def template_def

lemmas base64_eval = base64.simps b64char_def char_of_eq_iff Let_def

lemma demo_keys:
  "exportECDHPublicKey demoBrowser (demoPublic 6) = ''CA==''"
  "exportECDHPublicKey demoBrowser (demoPublic 15) = ''Ew==''"
  "exportECDHPublicKey demoBrowser (demoPublic 3) = ''Cg==''"
  "generateNonce demoBrowser ''rnd-a'' = ''cm5kLWE=''"
  "generateNonce demoBrowser ''rnd-b'' = ''cm5kLWI=''"
  "generateNonce demoBrowser ''rnd-c'' = ''cm5kLWM=''"
  by (simp_all add: demo_eval base64_eval)

lemma demo_import:
  "importECDHPublicKey demoBrowser (Some ''Ew=='') = Inr (demoPublic 15)"
  "importECDHPublicKey demoBrowser (Some ''Cg=='') = Inr (demoPublic 3)"
  by (simp_all add: demo_eval unbase64.simps b64index_def Let_def char_of_eq_iff)

lemma demo_secrets:
  "deriveSharedSecret demoBrowser 15 (demoPublic 6) = Inr [char_of (2::nat)]"
  "deriveSharedSecret demoBrowser 6 (demoPublic 15) = Inr [char_of (2::nat)]"
  "deriveSharedSecret demoBrowser 3 (demoPublic 4) = Inr [char_of (18::nat)]"
  "deriveSharedSecret demoBrowser 4 (demoPublic 3) = Inr [char_of (18::nat)]"
  by (simp_all add: demo_eval)

lemma demo_tag_bob_alice:
  "confirmationTag demoBrowser ''bob'' ''alice'' 1700000001000
     = ''EdAaBCSLta1TwAClw02lpfnjMbBksiQ7RrQ3+tgQvDs=''"
  by (simp add: confirmationTag_def demoBrowser_def sha256_def encode_def toString_def digits.simps
      sha256_tag_bob_alice base64_eval)

lemma demo_tag_alice_bob:
  "confirmationTag demoBrowser ''alice'' ''bob'' 1700000001000
     = ''KVR2yD8d5OaO48Q98LAGIFIBjsxkfrgezlsYVVJwt/s=''"
  by (simp add: confirmationTag_def demoBrowser_def sha256_def encode_def toString_def digits.simps
      sha256_tag_alice_bob base64_eval)

lemma demo_session_keys:
  "deriveSessionKeySHA256 demoBrowser [char_of (2::nat)] ''alice'' ''bob'' (Some 1700000001000)
     = Inr sessionKey2"
  "deriveSessionKeySHA256 demoBrowser [char_of (18::nat)] ''alice'' ''bob'' (Some 1700000001000)
     = Inr sessionKey18"
  by (simp_all add: deriveSessionKeySHA256_def demoBrowser_def sha256_def encode_def toString_def
      digits.simps sha256_key_secret2 sha256_key_secret18 sessionKey2_def sessionKey18_def)


lemma demo_sorted: "sort2 ''alice'' ''bob'' = [''alice'', ''bob'']" "sort2 ''bob'' ''alice'' = [''alice'', ''bob'']"
  by (simp_all add: sort2_def)

lemma demo_browser_fields:
  "btoa demoBrowser = base64" "atob demoBrowser = unbase64" "stringify demoBrowser = jsonStringify"
  "userAgent demoBrowser = ''demo''" "exportKey_raw demoBrowser = Inr"
  "importKey_raw demoBrowser = Inr"
  "idb_open_error demoBrowser = None" "idb_request_error demoBrowser = None"
  by (simp_all add: demoBrowser_def)

lemma demo_accepts: "dbAccepts demoBrowser emptyClient" "exportable demoBrowser k"
  by (simp_all add: dbAccepts_def exportable_def demo_browser_fields emptyClient_def)

lemma demo_store:
  "storeSessionKey demoBrowser now emptyClient c k ts
     = (Inr True, snd (storeSessionKey demoBrowser now emptyClient c k ts))"
  using storeSessionKey_accepts [OF demo_accepts, of now c k ts]
  by (simp add: prod_eq_iff)

lemma demo_sign: "key \<noteq> [] \<Longrightarrow> signData demoBrowser key dat = Inr (key @ dat)"
  by (simp add: signData_def demoBrowser_def demoSign_def)

lemma demo_verify:
  "key \<noteq> [] \<Longrightarrow> verifySignature demoBrowser key sg dat \<longleftrightarrow> sg = key @ dat"
  by (simp add: verifySignature_def demoBrowser_def demoVerify_def)

lemma signedBy_unsigned:
  "msg_signature m = None \<Longrightarrow> (signedBy key m)\<lparr>msg_signature := None\<rparr> = m"
  by (simp add: signedBy_def)

lemma signedBy_fields:
  "msg_signature (signedBy key m) = Some (base64 (key @ jsonStringify m))"
  "msg_timestamp (signedBy key m) = msg_timestamp m"
  "msg_nonce (signedBy key m) = msg_nonce m"
  "msg_ecdhPublicKey (signedBy key m) = msg_ecdhPublicKey m"
  "msg_confirmationHash (signedBy key m) = msg_confirmationHash m"
  by (simp_all add: signedBy_def)

lemma bob_responds:
  "createKeyExchangeResponse demoBrowser 1700000001000 ''rnd-b'' emptyClient (demoPublic 15)
       (demoPublic 6) 15 ''alice'' ''kb'' ''bob'' (Some ''c1'')
     = (Inr \<lparr>res_response = bobResponse, res_sessionKey = sessionKey2,
             res_timestamp = 1700000001000\<rparr>,
        snd (storeSessionKey demoBrowser 1700000001000 emptyClient ''c1'' sessionKey2
               (Some 1700000001000)))"
  using createKeyExchangeResponse_Inr [where E = demoBrowser and myPriv = 15
      and theirPub = "demoPublic 6" and sharedSecret = "[char_of (2::nat)]"
      and senderId = "''alice''" and receiverId = "''bob''" and now = 1700000001000
      and sessionKey = sessionKey2 and responseData = bobResponseData and conv = "Some ''c1''"
      and myPub = "demoPublic 15" and rnd = "''rnd-b''" and sk = "''kb''"
      and sg = "''kb'' @ jsonStringify bobResponseData" and st = emptyClient
      and stored = True
      and st' = "snd (storeSessionKey demoBrowser 1700000001000 emptyClient ''c1'' sessionKey2
               (Some 1700000001000))"]
    demo_store [of 1700000001000 "''c1''" sessionKey2 "Some 1700000001000"]
  by (simp add: demo_secrets demo_sorted demo_session_keys demo_keys demo_tag_bob_alice
      demo_browser_fields demo_sign bobResponseData_def [symmetric] bobResponse_def signedBy_def
      truthy_str_def template_def)


lemma demo_dh:
  "deriveBits demoBrowser 6 (demoPublic 15) = deriveBits demoBrowser 15 (demoPublic 6)"
  "deriveBits demoBrowser 4 (demoPublic 3) = deriveBits demoBrowser 3 (demoPublic 4)"
  by (simp_all add: demoBrowser_def demoDeriveBits_def demoPublic_def)

lemma bobResponseData_unsigned:
  "msg_signature bobResponseData = None"
  "msg_signature (bobResponseData\<lparr>msg_ecdhPublicKey := k, msg_nonce := n\<rparr>) = None"
  "msg_signature (bobResponseData\<lparr>msg_confirmationHash := h\<rparr>) = None"
  by (simp_all add: bobResponseData_def)

lemma demo_reaches:
  assumes "msg_signature m = None"
    and "\<not> outOfTolerance now (msg_timestamp m)"
    and "msg_nonce m \<notin> kx_seenNonces st"
    and "importECDHPublicKey demoBrowser (msg_ecdhPublicKey m) = Inr theirKey"
    and "deriveSharedSecret demoBrowser priv theirKey = Inr secret"
    and "deriveSessionKeySHA256 demoBrowser secret (sort2 theirId myId ! 0) (sort2 theirId myId ! 1)
           (msg_timestamp m) = Inr key"
  shows "reachesConfirmation demoBrowser now st (signedBy ''kb'' m) priv ''kb'' myId theirId key"
  using assms
  by (simp add: reachesConfirmation_def signedBy_fields signedBy_unsigned demo_browser_fields
      truthy_str_def template_def base64_Nil_iff unbase64_base64 demo_verify)

lemmas json_eval = jsonStringify_def jsonField_def jsonNumber_def quoted_def toString_def
  digits.simps

lemma alice_initiates:
  "createKeyExchangeInit demoBrowser 1700000000000 ''rnd-a'' (demoPublic 6) ''bob'' ''ka'' ''alice''
     ''c1'' = Inr aliceInit"
  by (simp add: createKeyExchangeInit_def demo_keys demo_browser_fields demo_sign aliceInit_def
      aliceInitData_def Let_def)

subsection \<open>The theorems at these values\<close>

theorem C1_session_keys_agree_witness:
  "fst (createKeyExchangeResponse demoBrowser 1700000001000 ''rnd-b'' emptyClient (demoPublic 15)
          (demoPublic 6) 15 ''alice'' ''kb'' ''bob'' (Some ''c1''))
     = Inr \<lparr>res_response = bobResponse, res_sessionKey = sessionKey2,
            res_timestamp = 1700000001000\<rparr> \<and>
   fst (completeKeyExchange demoBrowser 1700000002000 emptyClient bobResponse 6 ''kb'' ''alice''
          ''bob'' ''c1'') = Inr sessionKey2"
proof -
  let ?out = "\<lparr>res_response = bobResponse, res_sessionKey = sessionKey2,
                res_timestamp = 1700000001000\<rparr>"
  have key: "importECDHPublicKey demoBrowser (Some (exportECDHPublicKey demoBrowser (demoPublic 15)))
      = Inr (demoPublic 15)"
    by (simp add: demo_keys demo_import)
  have sg: "signData demoBrowser ''kb''
      (stringify demoBrowser ((res_response ?out)\<lparr>msg_signature := None\<rparr>))
      = Inr (''kb'' @ jsonStringify bobResponseData)"
    by (simp add: bobResponse_def signedBy_unsigned bobResponseData_unsigned demo_browser_fields
        demo_sign)
  have enc: "btoa demoBrowser (''kb'' @ jsonStringify bobResponseData) \<noteq> []"
    "atob demoBrowser (btoa demoBrowser (''kb'' @ jsonStringify bobResponseData))
       = Inr (''kb'' @ jsonStringify bobResponseData)"
    by (simp_all add: demo_browser_fields base64_Nil_iff unbase64_base64)
  have ver: "verifySignature demoBrowser ''kb'' (''kb'' @ jsonStringify bobResponseData)
      (stringify demoBrowser ((res_response ?out)\<lparr>msg_signature := None\<rparr>))"
    by (simp add: bobResponse_def signedBy_unsigned bobResponseData_unsigned demo_browser_fields
        demo_verify)
  have time: "\<bar>1700000002000 - 1700000001000\<bar> \<le> TIMESTAMP_TOLERANCE"
    by (simp add: TIMESTAMP_TOLERANCE_def)
  have fresh: "msg_nonce (res_response ?out) \<notin> kx_seenNonces emptyClient"
    by (simp add: emptyClient_def)
  from C1_session_keys_agree [OF bob_responds demo_dh(1) key sg enc ver time fresh, of "''c1''"]
    demo_accepts(1)
  have "fst (completeKeyExchange demoBrowser 1700000002000 emptyClient (res_response ?out) 6 ''kb''
          ''alice'' ''bob'' ''c1'') = Inr (res_sessionKey ?out)"
    by blast
  then show ?thesis
    by (simp add: bob_responds)
qed


theorem C2_tampered_envelope_rejected_witness:
  "createKeyExchangeInit demoBrowser 1700000000000 ''rnd-a'' (demoPublic 6) ''bob'' ''ka'' ''alice''
     ''c1'' = Inr aliceInit \<and>
   tamperedInit = aliceInit\<lparr>msg_ecdhPublicKey := Some ''Cg==''\<rparr> \<and>
   validateKeyExchangeInit demoBrowser 1700000000500 emptyClient tamperedInit ''ka''
     = (InvalidInit ''Invalid signature'', emptyClient) \<and>
   fst (handleKeyExchangeMessage demoBrowser 1700000000500 1700000001000 ''rnd-b''
          (demoPublic 15, 15) True None bobHook emptyClient tamperedInit ''alice'' ''ka''
          (Some ''c1'')) = False \<and>
   sessionKeyStore (snd (snd (handleKeyExchangeMessage demoBrowser 1700000000500 1700000001000
          ''rnd-b'' (demoPublic 15, 15) True None bobHook emptyClient tamperedInit ''alice'' ''ka''
          (Some ''c1'')))) = None \<and>
   completeKeyExchange demoBrowser 1700000002000 emptyClient tamperedResponse 6 ''kb'' ''alice''
       ''bob'' ''c1''
     = (Inl ''Failed to complete key exchange: Invalid signature in response'', emptyClient)"
proof -
  let ?sg = "''ka'' @ jsonStringify aliceInitData"
  have s1: "msg_signature tamperedInit = Some (base64 ?sg)"
    by (simp add: tamperedInit_def aliceInit_def)
  have s2: "base64 ?sg \<noteq> []"
    by (simp add: base64_Nil_iff)
  have s3: "atob demoBrowser (base64 ?sg) = Inr ?sg"
    by (simp add: demo_browser_fields unbase64_base64)
  have covered: "\<forall>d. verifySignature demoBrowser ''ka'' ?sg d \<longrightarrow> d = jsonStringify aliceInitData"
    by (simp add: demo_verify)
  have differs: "stringify demoBrowser (tamperedInit\<lparr>msg_signature := None\<rparr>)
      \<noteq> jsonStringify aliceInitData"
    by (simp add: demo_browser_fields tamperedInit_def aliceInit_def aliceInitData_def json_eval)
  let ?rg = "''kb'' @ jsonStringify bobResponseData"
  have r1: "msg_signature tamperedResponse = Some (base64 ?rg)"
    by (simp add: tamperedResponse_def bobResponse_def signedBy_def)
  have r2: "base64 ?rg \<noteq> []"
    by (simp add: base64_Nil_iff)
  have r3: "atob demoBrowser (base64 ?rg) = Inr ?rg"
    by (simp add: demo_browser_fields unbase64_base64)
  have rcovered: "\<forall>d. verifySignature demoBrowser ''kb'' ?rg d \<longrightarrow> d = jsonStringify bobResponseData"
    by (simp add: demo_verify)
  have rdiffers: "stringify demoBrowser (tamperedResponse\<lparr>msg_signature := None\<rparr>)
      \<noteq> jsonStringify bobResponseData"
    by (simp add: demo_browser_fields tamperedResponse_def bobResponse_def signedBy_def
        bobResponseData_def json_eval)
  from C2_tampered_envelope_rejected [OF s1 s2 s3 covered differs,
      of 1700000000500 emptyClient 1700000001000 "''rnd-b''" "(demoPublic 15, 15)" True None
         bobHook "''alice''" "Some ''c1''" 15 "''bob''" "''alice''" "''c1''"]
    C2_tampered_envelope_rejected [OF r1 r2 r3 rcovered rdiffers,
      of 1700000002000 emptyClient 1700000002000 "''rnd-b''" "(demoPublic 15, 15)" True None
         bobHook "''bob''" "Some ''c1''" 6 "''alice''" "''bob''" "''c1''"]
  show ?thesis
    by (simp add: alice_initiates tamperedInit_def emptyClient_def)
qed

theorem C4_confirmation_tag_responder_first_witness:
  "msg_confirmationHash bobResponse = Some (confirmationTag demoBrowser ''bob'' ''alice'' 1700000001000) \<and>
   fst (completeKeyExchange demoBrowser 1700000002000 emptyClient bobResponse 6 ''kb'' ''alice''
          ''bob'' ''c1'') = Inr sessionKey2 \<and>
   confirmationTag demoBrowser ''alice'' ''bob'' 1700000001000
     = specConfirmationTag demoBrowser ''bob'' ''alice'' 1700000001000"
proof -
  let ?out = "\<lparr>res_response = bobResponse, res_sessionKey = sessionKey2,
                res_timestamp = 1700000001000\<rparr>"
  have r: "reachesConfirmation demoBrowser 1700000002000 emptyClient bobResponse 6 ''kb''
      ''alice'' ''bob'' sessionKey2"
    unfolding bobResponse_def
    by (rule demo_reaches [where theirKey = "demoPublic 15" and secret = "[char_of (2::nat)]"])
      (simp_all add: bobResponseData_def outOfTolerance_def TIMESTAMP_TOLERANCE_def emptyClient_def
        demo_import demo_secrets demo_sorted demo_session_keys)
  have accepts: "dbAccepts demoBrowser
      (emptyClient\<lparr>kx_seenNonces := insert (msg_nonce bobResponse) (kx_seenNonces emptyClient)\<rparr>)"
    using demo_accepts(1) by (simp add: dbAccepts_def)
  have completed: "fst (completeKeyExchange demoBrowser 1700000002000 emptyClient bobResponse 6 ''kb''
      ''alice'' ''bob'' ''c1'') = Inr sessionKey2"
    using completeKeyExchange_at_confirmation [OF r, of "''c1''"]
      storeThenReturn_accepts [OF accepts demo_accepts(2), where k = sessionKey2
        and now = 1700000002000 and c = "''c1''" and ts = "Some 1700000001000"]
    by (auto simp: bobResponse_def signedBy_fields bobResponseData_def demo_tag_bob_alice)
  have le: "''alice'' \<le> ''bob''"
    by simp
  from C4_confirmation_tag_responder_first [of demoBrowser 1700000001000 "''rnd-b''" emptyClient
      "demoPublic 15" "demoPublic 6" 15 "''alice''" "''kb''" "''bob''" "Some ''c1''" ?out
      "snd (storeSessionKey demoBrowser 1700000001000 emptyClient ''c1'' sessionKey2
             (Some 1700000001000))"
      1700000002000 emptyClient bobResponse 6 "''kb''" "''alice''" "''bob''" "''c1''" sessionKey2]
    C4_confirmation_tag_responder_first [of demoBrowser 1700000001000 "''rnd-b''" emptyClient
      "demoPublic 15" "demoPublic 6" 15 "''bob''" "''kb''" "''alice''" "Some ''c1''" ?out
      "snd (storeSessionKey demoBrowser 1700000001000 emptyClient ''c1'' sessionKey2
             (Some 1700000001000))"
      1700000002000 emptyClient bobResponse 6 "''kb''" "''alice''" "''bob''" "''c1''" sessionKey2]
    bob_responds completed le
  show ?thesis
    by simp
qed

text \<open>
  The claim that the tag is the hash over the sorted pair of ids fails for responder
  \<open>bob\<close> and initiator \<open>alice\<close>: the Response carries the digest of
  \<open>KEY_CONFIRMED_bob_alice_1700000001000\<close>, the sorted formula gives the digest of
  \<open>KEY_CONFIRMED_alice_bob_1700000001000\<close>.
\<close>

theorem C4_sorted_tag_counterexample:
  "emittedTag (createKeyExchangeResponse demoBrowser 1700000001000 ''rnd-b'' emptyClient
      (demoPublic 15) (demoPublic 6) 15 ''alice'' ''kb'' ''bob'' (Some ''c1''))
     = Some ''EdAaBCSLta1TwAClw02lpfnjMbBksiQ7RrQ3+tgQvDs='' \<and>
   specConfirmationTag demoBrowser ''alice'' ''bob'' 1700000001000
     = ''KVR2yD8d5OaO48Q98LAGIFIBjsxkfrgezlsYVVJwt/s='' \<and>
   emittedTag (createKeyExchangeResponse demoBrowser 1700000001000 ''rnd-b'' emptyClient
      (demoPublic 15) (demoPublic 6) 15 ''alice'' ''kb'' ''bob'' (Some ''c1''))
     \<noteq> Some (specConfirmationTag demoBrowser ''alice'' ''bob'' 1700000001000)"
  by (simp add: emittedTag_def bob_responds bobResponse_def signedBy_fields bobResponseData_def
      specConfirmationTag_def demo_sorted demo_tag_alice_bob)

lemmas store_eval = storeSessionKey_def retrieveSessionKey_def indexedDB_open_def
  demo_browser_fields emptyClient_def orNow_def SESSION_KEY_EXPIRY_def storedEntry_def Let_def

lemma storedClient_eval:
  "storedClient = \<lparr>kx_seenNonces = {}, dbVersion = 2,
      sessionKeyStore = Some [''sessionKey-c1'' \<mapsto>
        \<lparr>kd_key = sessionKey2, kd_timestamp = 1700000001000, kd_expiresAt = 1700604801000\<rparr>]\<rparr>"
  by (simp add: storedClient_def store_eval)



text \<open>
  In a fresh browser whose first call is the store, the expiry is as specified: the key
  at creation time plus seven days, \<open>null\<close> and no entry one millisecond later.
\<close>

lemma retrieveSessionKey_store_first:
  "storeSessionKey demoBrowser 1700000001000 emptyClient ''c1'' sessionKey2 (Some 1700000001000)
     = (Inr True, storedClient) \<and>
   retrieveSessionKey demoBrowser 1700604801000 storedClient ''c1''
     = (Inr (Some sessionKey2), storedClient) \<and>
   fst (retrieveSessionKey demoBrowser 1700604801001 storedClient ''c1'') = Inr None \<and>
   storedEntry (snd (retrieveSessionKey demoBrowser 1700604801001 storedClient ''c1'')) ''c1'' = None"
proof -
  have s: "storeSessionKey demoBrowser 1700000001000 emptyClient ''c1'' sessionKey2
      (Some 1700000001000) = (Inr True, storedClient)"
    using demo_store [of 1700000001000 "''c1''" sessionKey2 "Some 1700000001000"]
    by (simp add: storedClient_def)
  have v: "dbVersion storedClient \<le> 2"
    by (simp add: storedClient_eval)
  have i: "importKey_raw demoBrowser exported = Inr sessionKey2"
    if "exportKey_raw demoBrowser sessionKey2 = Inr exported" for exported
    using that by (simp add: demo_browser_fields)
  have t: "0 \<le> orNow (Some 1700000001000) 1700000001000"
    by (simp add: orNow_def)
  from retrieveSessionKey_after_store [OF s v i t, of 1700604801000]
    retrieveSessionKey_after_store [OF s v i t, of 1700604801001]
  show ?thesis
    by (simp add: s orNow_def SESSION_KEY_EXPIRY_def)
qed


theorem C8_confirmation_mismatch_aborts_witness:
  "fst (completeKeyExchange demoBrowser 1700000002000 emptyClient forgedResponse 6 ''kb'' ''alice''
          ''bob'' ''c1'')
     = Inl ''Failed to complete key exchange: Confirmation hash mismatch'' \<and>
   sessionKeyStore (snd (completeKeyExchange demoBrowser 1700000002000 emptyClient forgedResponse 6
          ''kb'' ''alice'' ''bob'' ''c1'')) = None"
proof -
  have r: "reachesConfirmation demoBrowser 1700000002000 emptyClient forgedResponse 6 ''kb''
      ''alice'' ''bob'' sessionKey2"
    unfolding forgedResponse_def
    by (rule demo_reaches [where theirKey = "demoPublic 15" and secret = "[char_of (2::nat)]"])
      (simp_all add: bobResponseData_def outOfTolerance_def TIMESTAMP_TOLERANCE_def emptyClient_def
        demo_import demo_secrets demo_sorted demo_session_keys)
  have t: "msg_timestamp forgedResponse = Some 1700000001000"
    by (simp add: forgedResponse_def signedBy_fields bobResponseData_def)
  have ne: "msg_confirmationHash forgedResponse
      \<noteq> Some (confirmationTag demoBrowser ''bob'' ''alice'' 1700000001000)"
    by (simp add: forgedResponse_def signedBy_fields bobResponseData_def demo_tag_bob_alice)
  from C8_confirmation_mismatch_aborts [OF r t ne, of "''c1''"]
  show ?thesis
    by (simp add: emptyClient_def)
qed

end
